theory Spec2Isabelle
  imports Main "HOL-Library.Word"
begin

section \<open>Common data\<close>

text \<open>
  Every fatal assertion of the sources (\<^verbatim>\<open>BTN_ASSERT\<close>, \<^verbatim>\<open>BN_ASSERT\<close>, \<^verbatim>\<open>BN_ERROR\<close>) is a
  constructor of \<open>error\<close>; a function that can reach one returns \<open>error + 'a\<close>, or the
  error beside the memory of the caller it works on. The C++ \<^verbatim>\<open>int\<close> values of the
  sources are only compared, stored and added to small constants here, so they are
  \<open>int\<close>; the 16 bit register values are \<open>16 word\<close>.
\<close>

datatype error =
    Invalid_color_index int int
  | Invalid_any_type
  | Out_of_bounds_access
  | Effect_slots_exhausted
  | Allocation_failed
  | Invalid_colors_count int
  | Invalid_intensity
  | Vector_full
  | Invalid_shrink_size
  | Utf8_character_not_found
  | Invalid_character
  | Invalid_utf8_character

type_synonym color = "16 word"

datatype bpp_mode = BPP_4 | BPP_8

text \<open>
  \<^verbatim>\<open>display::height()\<close> is declared in a header that is not among the sources.
  Modelled from the spec: a line table has one value per scanline, 160 for this hardware.
\<close>

definition display_height :: nat where
  "display_height = 160"

section \<open>Effect handlers\<close>

subsection \<open>The opaque cached state\<close>

text \<open>
  The handlers keep their last value in an \<^verbatim>\<open>iany\<close>. Its values are the ones the three
  handlers store; \<^verbatim>\<open>value<T>()\<close> on a holder of another type is a failed assertion.
\<close>

record last_value_type =
  lv_map_dimensions :: "int \<times> int"
  lv_tiles_cbb :: int
  lv_bpp :: bpp_mode

datatype iany =
    Any_empty
  | Any_int_pair "int \<times> int"
  | Any_bg_last_value last_value_type

definition value_int_pair :: "iany \<Rightarrow> error + (int \<times> int)" where
  "value_int_pair a = (case a of Any_int_pair p \<Rightarrow> Inr p | _ \<Rightarrow> Inl Invalid_any_type)"

definition value_bg_last_value :: "iany \<Rightarrow> error + last_value_type" where
  "value_bg_last_value a = (case a of Any_bg_last_value v \<Rightarrow> Inr v | _ \<Rightarrow> Inl Invalid_any_type)"

subsection \<open>The managers the handlers read\<close>

text \<open>
  \<^verbatim>\<open>display_manager\<close>, \<^verbatim>\<open>bgs_manager\<close> and the \<^verbatim>\<open>hw\<close> register tables are not among the
  sources: the handlers take what they read from them as parameters. A target id is
  the \<^verbatim>\<open>int\<close> the handler receives; the background handler reinterprets it as the
  background's handle.
\<close>

record regular_bg_map_ptr =
  map_dimensions :: "int \<times> int"
  map_tiles_cbb :: int
  map_bpp :: bpp_mode

record 'i managers =
  rect_window_hw_horizontal_boundaries :: "int \<Rightarrow> int \<times> int"
  fill_rect_window_hblank_effect_horizontal_boundaries ::
    "int \<times> int \<Rightarrow> 'i \<Rightarrow> 16 word list \<Rightarrow> 16 word list"
  bgs_hw_id :: "int \<Rightarrow> int option"
  bgs_map :: "int \<Rightarrow> regular_bg_map_ptr"
  fill_hblank_effect_regular_attributes :: "int \<Rightarrow> 'i \<Rightarrow> 16 word list \<Rightarrow> 16 word list"
  window_horizontal_boundaries_register :: "int \<Rightarrow> nat"
  bgs_attributes_register :: "int \<Rightarrow> nat"
  sprite_color_register :: "int \<Rightarrow> nat"

subsection \<open>\<^verbatim>\<open>rect_window_horizontal_boundaries_hbe_handler\<close>\<close>

definition rw_target_visible :: "int \<Rightarrow> bool" where
  "rw_target_visible target_id = True"

definition rw_setup_target :: "int \<Rightarrow> iany \<Rightarrow> iany" where
  "rw_setup_target target_id target_last_value = Any_int_pair (0, 0)"

definition rw_target_updated :: "'i managers \<Rightarrow> int \<Rightarrow> iany \<Rightarrow> error + (bool \<times> iany)" where
  "rw_target_updated m target_id target_last_value =
     (case value_int_pair target_last_value of
        Inl e \<Rightarrow> Inl e
      | Inr last_value \<Rightarrow>
          (let new_value = rect_window_hw_horizontal_boundaries m target_id;
               updated = (last_value \<noteq> new_value)
           in Inr (updated, Any_int_pair new_value)))"

definition rw_output_register :: "'i managers \<Rightarrow> int \<Rightarrow> nat" where
  "rw_output_register m target_id = window_horizontal_boundaries_register m target_id"

definition rw_write_output_values ::
  "'i managers \<Rightarrow> int \<Rightarrow> iany \<Rightarrow> 'i \<Rightarrow> 16 word list \<Rightarrow> error + 16 word list" where
  "rw_write_output_values m target_id target_last_value input_values output_values =
     (case value_int_pair target_last_value of
        Inl e \<Rightarrow> Inl e
      | Inr last_value \<Rightarrow>
          Inr (fill_rect_window_hblank_effect_horizontal_boundaries m
                 last_value input_values output_values))"

subsection \<open>\<^verbatim>\<open>regular_bg_attributes_hblank_effect_handler\<close>\<close>

definition new_last_value_type :: "'i managers \<Rightarrow> int \<Rightarrow> last_value_type" where
  "new_last_value_type m target_id =
     (let target_map_ptr = bgs_map m target_id
      in \<lparr> lv_map_dimensions = map_dimensions target_map_ptr,
           lv_tiles_cbb = map_tiles_cbb target_map_ptr,
           lv_bpp = map_bpp target_map_ptr \<rparr>)"

definition bg_setup_target :: "'i managers \<Rightarrow> int \<Rightarrow> iany \<Rightarrow> iany" where
  "bg_setup_target m target_id target_last_value =
     Any_bg_last_value (new_last_value_type m target_id)"

definition bg_target_visible :: "'i managers \<Rightarrow> int \<Rightarrow> bool" where
  "bg_target_visible m target_id = (bgs_hw_id m target_id \<noteq> None)"

definition bg_target_updated :: "'i managers \<Rightarrow> int \<Rightarrow> iany \<Rightarrow> error + (bool \<times> iany)" where
  "bg_target_updated m target_id target_last_value =
     (case value_bg_last_value target_last_value of
        Inl e \<Rightarrow> Inl e
      | Inr last_value \<Rightarrow>
          (let new_value = new_last_value_type m target_id;
               updated = (last_value \<noteq> new_value)
           in Inr (updated, Any_bg_last_value new_value)))"

definition bg_output_register :: "'i managers \<Rightarrow> int \<Rightarrow> error + nat" where
  "bg_output_register m target_id =
     (case bgs_hw_id m target_id of
        None \<Rightarrow> Inl Out_of_bounds_access
      | Some hw_id \<Rightarrow> Inr (bgs_attributes_register m hw_id))"

definition bg_write_output_values ::
  "'i managers \<Rightarrow> int \<Rightarrow> iany \<Rightarrow> 'i \<Rightarrow> 16 word list \<Rightarrow> error + 16 word list" where
  "bg_write_output_values m target_id target_last_value input_values output_values =
     Inr (fill_hblank_effect_regular_attributes m target_id input_values output_values)"

subsection \<open>\<^verbatim>\<open>color_hblank_effect_handler\<close>\<close>

text \<open>
  \<^verbatim>\<open>memory::copy(source, elements, destination)\<close> copies \<open>elements\<close> values from the
  source array to the front of the destination array. The two arrays are separate
  objects, here two lists; an array shorter than \<open>elements\<close> would be read or written
  past its end, which is no result at all.
\<close>

definition memory_copy :: "'a list \<Rightarrow> nat \<Rightarrow> 'a list \<Rightarrow> error + 'a list" where
  "memory_copy source elements destination =
     (if elements \<le> length source \<and> elements \<le> length destination
      then Inr (take elements source @ drop elements destination)
      else Inl Out_of_bounds_access)"

definition color_setup_target :: "int \<Rightarrow> iany \<Rightarrow> iany" where
  "color_setup_target target_id target_last_value = target_last_value"

definition color_target_visible :: "int \<Rightarrow> bool" where
  "color_target_visible target_id = True"

definition color_target_updated :: "int \<Rightarrow> iany \<Rightarrow> error + (bool \<times> iany)" where
  "color_target_updated target_id target_last_value = Inr (False, target_last_value)"

definition color_output_register :: "'i managers \<Rightarrow> int \<Rightarrow> nat" where
  "color_output_register m target_id = sprite_color_register m target_id"

definition color_write_output_values ::
  "int \<Rightarrow> iany \<Rightarrow> color list \<Rightarrow> 16 word list \<Rightarrow> error + 16 word list" where
  "color_write_output_values target_id target_last_value input_values output_values =
     memory_copy input_values display_height output_values"

text \<open>
  The handler object the manager receives (\<^verbatim>\<open>hblank_effect_handler\<close>): the operations
  of one effect kind. The input table is the caller's array behind \<^verbatim>\<open>const void*\<close>.
\<close>

record 'i hblank_effect_handler =
  setup_target :: "int \<Rightarrow> iany \<Rightarrow> iany"
  target_visible :: "int \<Rightarrow> bool"
  target_updated :: "int \<Rightarrow> iany \<Rightarrow> error + (bool \<times> iany)"
  output_register :: "int \<Rightarrow> error + nat"
  write_output_values :: "int \<Rightarrow> iany \<Rightarrow> 'i \<Rightarrow> 16 word list \<Rightarrow> error + 16 word list"

definition color_handler :: "'x managers \<Rightarrow> color list hblank_effect_handler" where
  "color_handler m =
     \<lparr> setup_target = color_setup_target,
       target_visible = color_target_visible,
       target_updated = color_target_updated,
       output_register = (\<lambda>target_id. Inr (color_output_register m target_id)),
       write_output_values = color_write_output_values \<rparr>"

definition rect_window_horizontal_boundaries_hbe_handler ::
  "'i managers \<Rightarrow> 'i hblank_effect_handler" where
  "rect_window_horizontal_boundaries_hbe_handler m =
     \<lparr> setup_target = rw_setup_target,
       target_visible = rw_target_visible,
       target_updated = rw_target_updated m,
       output_register = (\<lambda>target_id. Inr (rw_output_register m target_id)),
       write_output_values = rw_write_output_values m \<rparr>"

definition regular_bg_attributes_hblank_effect_handler ::
  "'i managers \<Rightarrow> 'i hblank_effect_handler" where
  "regular_bg_attributes_hblank_effect_handler m =
     \<lparr> setup_target = bg_setup_target m,
       target_visible = bg_target_visible m,
       target_updated = bg_target_updated m,
       output_register = bg_output_register m,
       write_output_values = bg_write_output_values m \<rparr>"

section \<open>The HBlank effects manager\<close>

text \<open>
  Modelled from the spec: \<^verbatim>\<open>hblank_effects_manager\<close> (the HBlank Effect Scheduler) is
  called by the sources but is not among them. An effect slot holds the target id, the
  handler, the visible flag, the cached last value, the caller's input table, the output
  register, the dirty flag set by creation and by the caller's reload notification, and
  the two line tables of which the hardware reads the active one. \<open>slot_write_calls\<close>
  counts the calls of \<open>write_output_values\<close>. The manager has a fixed number of slots;
  an effect id is the index of its slot.
\<close>

record 'i effect_slot =
  slot_target_id :: int
  slot_handler :: "'i hblank_effect_handler"
  slot_visible :: bool
  slot_last_value :: iany
  slot_input_values :: 'i
  slot_output_register :: nat
  slot_dirty :: bool
  slot_active_table :: "16 word list"
  slot_inactive_table :: "16 word list"
  slot_write_calls :: nat

type_synonym 'i hblank_effects_manager = "'i effect_slot option list"

fun find_free_slot :: "'a option list \<Rightarrow> nat option" where
  "find_free_slot [] = None"
| "find_free_slot (None # slots) = Some 0"
| "find_free_slot (Some s # slots) = map_option Suc (find_free_slot slots)"

definition new_effect_slot ::
  "'i \<Rightarrow> int \<Rightarrow> 'i hblank_effect_handler \<Rightarrow> nat \<Rightarrow> 'i effect_slot" where
  "new_effect_slot values_ptr target_id handler register =
     \<lparr> slot_target_id = target_id,
       slot_handler = handler,
       slot_visible = True,
       slot_last_value = setup_target handler target_id Any_empty,
       slot_input_values = values_ptr,
       slot_output_register = register,
       slot_dirty = True,
       slot_active_table = replicate display_height 0,
       slot_inactive_table = replicate display_height 0,
       slot_write_calls = 0 \<rparr>"

text \<open>
  Modelled from the spec: a request beyond the capacity fails visibly. The entry point
  with a failure path answers the id \<open>-1\<close> and leaves the slots as they are; the entry
  point without one stops on a fatal assertion.
\<close>

definition hblank_effects_manager_optional_create ::
  "'i \<Rightarrow> int \<Rightarrow> int \<Rightarrow> 'i hblank_effect_handler \<Rightarrow> 'i hblank_effects_manager
   \<Rightarrow> error + (int \<times> 'i hblank_effects_manager)" where
  "hblank_effects_manager_optional_create values_ptr values_count target_id handler mgr =
     (case find_free_slot mgr of
        None \<Rightarrow> Inr (- 1, mgr)
      | Some i \<Rightarrow>
          (case output_register handler target_id of
             Inl e \<Rightarrow> Inl e
           | Inr register \<Rightarrow>
               Inr (int i, mgr[i := Some (new_effect_slot values_ptr target_id handler register)])))"

definition hblank_effects_manager_create ::
  "'i \<Rightarrow> int \<Rightarrow> int \<Rightarrow> 'i hblank_effect_handler \<Rightarrow> 'i hblank_effects_manager
   \<Rightarrow> error + (int \<times> 'i hblank_effects_manager)" where
  "hblank_effects_manager_create values_ptr values_count target_id handler mgr =
     (case find_free_slot mgr of
        None \<Rightarrow> Inl Effect_slots_exhausted
      | Some i \<Rightarrow>
          (case output_register handler target_id of
             Inl e \<Rightarrow> Inl e
           | Inr register \<Rightarrow>
               Inr (int i, mgr[i := Some (new_effect_slot values_ptr target_id handler register)])))"

text \<open>
  Modelled from the spec: the manager hands out the caller's input table of an effect,
  takes a new one, and takes the caller's reload notification, which sets the dirty
  flag. An id that is not the id of a slot in use is an access out of bounds.
\<close>

definition get_slot :: "'i hblank_effects_manager \<Rightarrow> int \<Rightarrow> 'i effect_slot option" where
  "get_slot mgr effect_id =
     (if 0 \<le> effect_id \<and> nat effect_id < length mgr then mgr ! nat effect_id else None)"

definition hblank_effects_manager_values_ref ::
  "'i hblank_effects_manager \<Rightarrow> int \<Rightarrow> error + 'i" where
  "hblank_effects_manager_values_ref mgr effect_id =
     (case get_slot mgr effect_id of
        None \<Rightarrow> Inl Out_of_bounds_access
      | Some s \<Rightarrow> Inr (slot_input_values s))"

definition hblank_effects_manager_set_values_ref ::
  "int \<Rightarrow> 'i \<Rightarrow> int \<Rightarrow> 'i hblank_effects_manager \<Rightarrow> error + 'i hblank_effects_manager" where
  "hblank_effects_manager_set_values_ref effect_id values_ptr values_count mgr =
     (case get_slot mgr effect_id of
        None \<Rightarrow> Inl Out_of_bounds_access
      | Some s \<Rightarrow>
          Inr (mgr[nat effect_id :=
                 Some (s\<lparr>slot_input_values := values_ptr, slot_dirty := True\<rparr>)]))"

definition hblank_effects_manager_reload_values_ref ::
  "int \<Rightarrow> 'i hblank_effects_manager \<Rightarrow> error + 'i hblank_effects_manager" where
  "hblank_effects_manager_reload_values_ref effect_id mgr =
     (case get_slot mgr effect_id of
        None \<Rightarrow> Inl Out_of_bounds_access
      | Some s \<Rightarrow> Inr (mgr[nat effect_id := Some (s\<lparr>slot_dirty := True\<rparr>)]))"

text \<open>
  Modelled from the spec: the pass of one frame over a slot. A hidden slot or an
  invisible target is skipped. Otherwise \<open>target_updated\<close> is evaluated, and when it
  reports a change or the dirty flag is set, \<open>write_output_values\<close> fills the inactive
  line table and the two tables are swapped.
\<close>

definition update_slot :: "'i effect_slot \<Rightarrow> error + 'i effect_slot" where
  "update_slot s =
     (if \<not> slot_visible s \<or> \<not> target_visible (slot_handler s) (slot_target_id s) then Inr s
      else
        (case target_updated (slot_handler s) (slot_target_id s) (slot_last_value s) of
           Inl e \<Rightarrow> Inl e
         | Inr (updated, last_value) \<Rightarrow>
             (if updated \<or> slot_dirty s then
                (case write_output_values (slot_handler s) (slot_target_id s) last_value
                        (slot_input_values s) (slot_inactive_table s) of
                   Inl e \<Rightarrow> Inl e
                 | Inr output_values \<Rightarrow>
                     Inr (s\<lparr> slot_last_value := last_value,
                             slot_dirty := False,
                             slot_active_table := output_values,
                             slot_inactive_table := slot_active_table s,
                             slot_write_calls := Suc (slot_write_calls s) \<rparr>))
              else Inr (s\<lparr> slot_last_value := last_value \<rparr>))))"

fun hblank_effects_manager_update ::
  "'i hblank_effects_manager \<Rightarrow> error + 'i hblank_effects_manager" where
  "hblank_effects_manager_update [] = Inr []"
| "hblank_effects_manager_update (None # slots) =
     (case hblank_effects_manager_update slots of
        Inl e \<Rightarrow> Inl e
      | Inr slots' \<Rightarrow> Inr (None # slots'))"
| "hblank_effects_manager_update (Some s # slots) =
     (case update_slot s of
        Inl e \<Rightarrow> Inl e
      | Inr s' \<Rightarrow>
          (case hblank_effects_manager_update slots of
             Inl e \<Rightarrow> Inl e
           | Inr slots' \<Rightarrow> Inr (Some s' # slots')))"

section \<open>\<^verbatim>\<open>sprite_palette_color_hblank_effect_ptr\<close>\<close>

text \<open>
  A \<^verbatim>\<open>sprite_palette_ptr\<close> is read through \<^verbatim>\<open>id()\<close> and \<^verbatim>\<open>colors_count()\<close> only; a span is
  the array its pointer points into and its size.
\<close>

record sprite_palette_ptr =
  palette_id :: int
  palette_colors_count :: int

record 'a span =
  span_data :: "'a list"
  span_size :: int

record sprite_palette_color_hblank_effect_ptr =
  hbe_id :: int
  hbe_palette :: sprite_palette_ptr
  hbe_color_index :: int

definition new_sprite_palette_color_hblank_effect_ptr ::
  "int \<Rightarrow> int \<Rightarrow> sprite_palette_ptr \<Rightarrow> sprite_palette_color_hblank_effect_ptr" where
  "new_sprite_palette_color_hblank_effect_ptr effect_id color_index palette =
     \<lparr> hbe_id = effect_id, hbe_palette = palette, hbe_color_index = color_index \<rparr>"

definition sprite_palette_color_hblank_effect_ptr_create ::
  "'x managers \<Rightarrow> sprite_palette_ptr \<Rightarrow> int \<Rightarrow> color span
   \<Rightarrow> color list hblank_effects_manager
   \<Rightarrow> error + (sprite_palette_color_hblank_effect_ptr \<times> color list hblank_effects_manager)" where
  "sprite_palette_color_hblank_effect_ptr_create m palette color_index colors_ref mgr =
     (if \<not> (color_index \<ge> 0 \<and> color_index < palette_colors_count palette)
      then Inl (Invalid_color_index color_index (palette_colors_count palette))
      else
        (let final_color_index = (palette_id palette * 16) + color_index
         in case hblank_effects_manager_create (span_data colors_ref) (span_size colors_ref)
                   final_color_index (color_handler m) mgr of
              Inl e \<Rightarrow> Inl e
            | Inr (effect_id, mgr') \<Rightarrow>
                Inr (new_sprite_palette_color_hblank_effect_ptr effect_id color_index palette, mgr')))"

definition sprite_palette_color_hblank_effect_ptr_optional_create ::
  "'x managers \<Rightarrow> sprite_palette_ptr \<Rightarrow> int \<Rightarrow> color span
   \<Rightarrow> color list hblank_effects_manager
   \<Rightarrow> error + (sprite_palette_color_hblank_effect_ptr option
                \<times> color list hblank_effects_manager)" where
  "sprite_palette_color_hblank_effect_ptr_optional_create m palette color_index colors_ref mgr =
     (if \<not> (color_index \<ge> 0 \<and> color_index < palette_colors_count palette)
      then Inl (Invalid_color_index color_index (palette_colors_count palette))
      else
        (let final_color_index = (palette_id palette * 16) + color_index
         in case hblank_effects_manager_optional_create (span_data colors_ref)
                   (span_size colors_ref) final_color_index (color_handler m) mgr of
              Inl e \<Rightarrow> Inl e
            | Inr (effect_id, mgr') \<Rightarrow>
                (if effect_id \<ge> 0
                 then Inr (Some (new_sprite_palette_color_hblank_effect_ptr effect_id color_index
                                  palette), mgr')
                 else Inr (None, mgr'))))"

definition sprite_palette_color_hblank_effect_ptr_colors_ref ::
  "sprite_palette_color_hblank_effect_ptr \<Rightarrow> color list hblank_effects_manager
   \<Rightarrow> error + color span" where
  "sprite_palette_color_hblank_effect_ptr_colors_ref p mgr =
     (case hblank_effects_manager_values_ref mgr (hbe_id p) of
        Inl e \<Rightarrow> Inl e
      | Inr values_ptr \<Rightarrow> Inr \<lparr> span_data = values_ptr, span_size = int display_height \<rparr>)"

definition sprite_palette_color_hblank_effect_ptr_set_colors_ref ::
  "sprite_palette_color_hblank_effect_ptr \<Rightarrow> color span \<Rightarrow> color list hblank_effects_manager
   \<Rightarrow> error + color list hblank_effects_manager" where
  "sprite_palette_color_hblank_effect_ptr_set_colors_ref p new_colors_ref mgr =
     hblank_effects_manager_set_values_ref (hbe_id p) (span_data new_colors_ref)
       (span_size new_colors_ref) mgr"

definition sprite_palette_color_hblank_effect_ptr_reload_colors_ref ::
  "sprite_palette_color_hblank_effect_ptr \<Rightarrow> color list hblank_effects_manager
   \<Rightarrow> error + color list hblank_effects_manager" where
  "sprite_palette_color_hblank_effect_ptr_reload_colors_ref p mgr =
     hblank_effects_manager_reload_values_ref (hbe_id p) mgr"

section \<open>\<^verbatim>\<open>bn::color_effect\<close>\<close>

text \<open>
  The fixed point type and the \<^verbatim>\<open>hw::palettes\<close> routines are not among the sources. A
  fixed point number is a value of any type \<open>'f\<close>, with the operations the sources use
  on it: the comparisons \<^verbatim>\<open>x >= n\<close> and \<^verbatim>\<open>x <= n\<close> with an integer,
  \<^verbatim>\<open>fixed_t<5>(x).data()\<close>, and the sum and difference \<^verbatim>\<open>x + n\<close> and \<^verbatim>\<open>x - n\<close> with an
  integer. A hardware routine maps the source colours, the value and the count to the
  colours it writes to the destination.
\<close>

record 'f fixed_lib =
  fixed_ge :: "'f \<Rightarrow> int \<Rightarrow> bool"
  fixed_le :: "'f \<Rightarrow> int \<Rightarrow> bool"
  fixed_t5_data :: "'f \<Rightarrow> int"
  fixed_add :: "'f \<Rightarrow> int \<Rightarrow> 'f"
  fixed_sub :: "'f \<Rightarrow> int \<Rightarrow> 'f"

record hw_palettes =
  hw_colors :: int
  hw_brightness :: "color list \<Rightarrow> int \<Rightarrow> int \<Rightarrow> color list"
  hw_contrast :: "color list \<Rightarrow> int \<Rightarrow> int \<Rightarrow> color list"
  hw_intensity :: "color list \<Rightarrow> int \<Rightarrow> int \<Rightarrow> color list"
  hw_grayscale :: "color list \<Rightarrow> int \<Rightarrow> int \<Rightarrow> color list"
  hw_hue_shift :: "color list \<Rightarrow> int \<Rightarrow> int \<Rightarrow> color list"
  hw_fade :: "color list \<Rightarrow> color \<Rightarrow> int \<Rightarrow> int \<Rightarrow> color list"

text \<open>
  The in-place overloads work on the caller's span. A call answers the assertion it
  stopped on, if any, and the colours the span holds when the call ends or stops: every
  assertion comes before the first write.
\<close>

definition brightness ::
  "'f fixed_lib \<Rightarrow> hw_palettes \<Rightarrow> 'f \<Rightarrow> color list \<Rightarrow> error option \<times> color list" where
  "brightness lib hw brightness_arg colors_ref =
     (let colors_count = int (length colors_ref)
      in if \<not> colors_count > 0 then (Some (Invalid_colors_count colors_count), colors_ref)
         else if \<not> (fixed_ge lib brightness_arg 0 \<and> fixed_le lib brightness_arg 1)
         then (Some Invalid_intensity, colors_ref)
         else (let value = fixed_t5_data lib brightness_arg
               in if value \<noteq> 0
                  then (None, hw_brightness hw colors_ref value colors_count)
                  else (None, colors_ref)))"

definition contrast ::
  "'f fixed_lib \<Rightarrow> hw_palettes \<Rightarrow> 'f \<Rightarrow> color list \<Rightarrow> error option \<times> color list" where
  "contrast lib hw contrast_arg colors_ref =
     (let colors_count = int (length colors_ref)
      in if \<not> colors_count > 0 then (Some (Invalid_colors_count colors_count), colors_ref)
         else if \<not> (fixed_ge lib contrast_arg 0 \<and> fixed_le lib contrast_arg 1)
         then (Some Invalid_intensity, colors_ref)
         else (let value = fixed_t5_data lib contrast_arg
               in if value \<noteq> 0
                  then (None, hw_contrast hw colors_ref value colors_count)
                  else (None, colors_ref)))"

definition intensity ::
  "'f fixed_lib \<Rightarrow> hw_palettes \<Rightarrow> 'f \<Rightarrow> color list \<Rightarrow> error option \<times> color list" where
  "intensity lib hw intensity_arg colors_ref =
     (let colors_count = int (length colors_ref)
      in if \<not> colors_count > 0 then (Some (Invalid_colors_count colors_count), colors_ref)
         else if \<not> (fixed_ge lib intensity_arg 0 \<and> fixed_le lib intensity_arg 1)
         then (Some Invalid_intensity, colors_ref)
         else (let value = fixed_t5_data lib intensity_arg
               in if value \<noteq> 0
                  then (None, hw_intensity hw colors_ref value colors_count)
                  else (None, colors_ref)))"

definition grayscale ::
  "'f fixed_lib \<Rightarrow> hw_palettes \<Rightarrow> 'f \<Rightarrow> color list \<Rightarrow> error option \<times> color list" where
  "grayscale lib hw grayscale_intensity colors_ref =
     (let colors_count = int (length colors_ref)
      in if \<not> (colors_count > 0 \<and> colors_count \<le> hw_colors hw)
         then (Some (Invalid_colors_count colors_count), colors_ref)
         else if \<not> (fixed_ge lib grayscale_intensity 0 \<and> fixed_le lib grayscale_intensity 1)
         then (Some Invalid_intensity, colors_ref)
         else (let value = fixed_t5_data lib grayscale_intensity
               in if value \<noteq> 0
                  then (None, hw_grayscale hw colors_ref value colors_count)
                  else (None, colors_ref)))"

definition hue_shift ::
  "'f fixed_lib \<Rightarrow> hw_palettes \<Rightarrow> 'f \<Rightarrow> color list \<Rightarrow> error option \<times> color list" where
  "hue_shift lib hw hue_shift_intensity colors_ref =
     (let colors_count = int (length colors_ref)
      in if \<not> (colors_count > 0 \<and> colors_count \<le> hw_colors hw)
         then (Some (Invalid_colors_count colors_count), colors_ref)
         else if \<not> (fixed_ge lib hue_shift_intensity 0 \<and> fixed_le lib hue_shift_intensity 1)
         then (Some Invalid_intensity, colors_ref)
         else (let value = fixed_t5_data lib hue_shift_intensity
               in if value \<noteq> 0
                  then (None, hw_hue_shift hw colors_ref value colors_count)
                  else (None, colors_ref)))"

definition fade ::
  "'f fixed_lib \<Rightarrow> hw_palettes \<Rightarrow> color \<Rightarrow> 'f \<Rightarrow> color list
   \<Rightarrow> error option \<times> color list" where
  "fade lib hw fade_color fade_intensity colors_ref =
     (let colors_count = int (length colors_ref)
      in if \<not> colors_count > 0 then (Some (Invalid_colors_count colors_count), colors_ref)
         else if \<not> (fixed_ge lib fade_intensity 0 \<and> fixed_le lib fade_intensity 1)
         then (Some Invalid_intensity, colors_ref)
         else (let value = fixed_t5_data lib fade_intensity
               in if value \<noteq> 0
                  then (None, hw_fade hw colors_ref fade_color value colors_count)
                  else (None, colors_ref)))"

section \<open>\<^verbatim>\<open>bn::sprite_text_generator\<close>\<close>

subsection \<open>The output vector\<close>

text \<open>
  \<^verbatim>\<open>ivector<sprite_ptr>\<close> is the fixed capacity vector of the engine's container library,
  which is not among the sources: the elements in order and the capacity, with the
  operations of \<^verbatim>\<open>std::vector\<close> the generator calls. \<^verbatim>\<open>push_back\<close> on a full vector and
  \<^verbatim>\<open>shrink\<close> to more than the size are failed assertions.
\<close>

record 'a ivector =
  vec_data :: "'a list"
  vec_max_size :: nat

definition vec_size :: "'a ivector \<Rightarrow> int" where
  "vec_size v = int (length (vec_data v))"

definition vec_full :: "'a ivector \<Rightarrow> bool" where
  "vec_full v = (length (vec_data v) = vec_max_size v)"

definition vec_push_back :: "'a \<Rightarrow> 'a ivector \<Rightarrow> error + 'a ivector" where
  "vec_push_back x v =
     (if vec_full v then Inl Vector_full else Inr (v\<lparr> vec_data := vec_data v @ [x] \<rparr>))"

definition vec_shrink :: "int \<Rightarrow> 'a ivector \<Rightarrow> error + 'a ivector" where
  "vec_shrink new_size v =
     (if \<not> (new_size \<ge> 0 \<and> new_size \<le> vec_size v) then Inl Invalid_shrink_size
      else Inr (v\<lparr> vec_data := take (nat new_size) (vec_data v) \<rparr>))"

subsection \<open>Fonts, generators and the sprite managers\<close>

datatype sprite_shape = SQUARE | WIDE | TALL

datatype sprite_size = SMALL | NORMAL | BIG | HUGE

datatype alignment_type = LEFT | CENTER | RIGHT

text \<open>
  Handles of sprites and of sprite tiles are integers; a pointer to tiles is an address
  counted in tiles, with 0 for \<^verbatim>\<open>nullptr\<close>. A \<^verbatim>\<open>char\<close> is a byte, compared as unsigned as
  on the ARM target of the engine.
\<close>

type_synonym sprite_ptr = int
type_synonym sprite_tiles_ptr = int
type_synonym tile_ptr = int

record sprite_palette_item =
  item_colors :: "color list"
  item_bpp_mode :: bpp_mode

record sprite_tiles_item =
  tiles_ref_data :: tile_ptr
  graphics_count :: int

record sprite_font =
  font_item_shape :: sprite_shape
  font_item_height :: int
  font_tiles_item :: sprite_tiles_item
  font_character_widths_ref :: "int list"
  font_space_between_characters :: int

record sprite_text_generator =
  gen_font :: sprite_font
  gen_palette_item :: sprite_palette_item
  gen_utf8_characters_map :: "int \<Rightarrow> int option"
  gen_alignment :: alignment_type
  gen_bg_priority :: int
  gen_z_order :: int
  gen_one_sprite_per_character :: bool

record 'f sprite_builder =
  builder_shape :: sprite_shape
  builder_size :: sprite_size
  builder_tiles :: sprite_tiles_ptr
  builder_palette :: sprite_palette_ptr
  builder_position :: "'f \<times> 'f"
  builder_bg_priority :: int
  builder_z_order :: int

text \<open>
  The palette, tiles and sprite managers, the video memory routines of \<^verbatim>\<open>hw::sprite_tiles\<close>
  and \<^verbatim>\<open>utf8_character\<close> are not among the sources. Their state is a value of any type
  \<open>'w\<close>, and each call the generator makes is a parameter: the calls with a failure
  path answer an optional, the others can stop on a fatal assertion. \<^verbatim>\<open>utf8_character\<close>
  answers the code and the size in bytes of the character the text starts with.
\<close>

record ('w, 'f) sprite_managers =
  ops_create_palette_optional :: "sprite_palette_item \<Rightarrow> 'w \<Rightarrow> sprite_palette_ptr option \<times> 'w"
  ops_create_palette :: "sprite_palette_item \<Rightarrow> 'w \<Rightarrow> error + (sprite_palette_ptr \<times> 'w)"
  ops_tiles_allocate_optional :: "int \<Rightarrow> bpp_mode \<Rightarrow> 'w \<Rightarrow> sprite_tiles_ptr option \<times> 'w"
  ops_tiles_allocate :: "int \<Rightarrow> bpp_mode \<Rightarrow> 'w \<Rightarrow> error + (sprite_tiles_ptr \<times> 'w)"
  ops_tiles_create_optional :: "sprite_tiles_item \<Rightarrow> int \<Rightarrow> 'w \<Rightarrow> sprite_tiles_ptr option \<times> 'w"
  ops_tiles_create :: "sprite_tiles_item \<Rightarrow> int \<Rightarrow> 'w \<Rightarrow> error + (sprite_tiles_ptr \<times> 'w)"
  ops_tiles_vram_data :: "sprite_tiles_ptr \<Rightarrow> 'w \<Rightarrow> tile_ptr"
  ops_sprite_create_optional :: "'f sprite_builder \<Rightarrow> 'w \<Rightarrow> sprite_ptr option \<times> 'w"
  ops_sprite_create :: "'f sprite_builder \<Rightarrow> 'w \<Rightarrow> error + (sprite_ptr \<times> 'w)"
  ops_graphics_tiles_ref_data :: "sprite_tiles_item \<Rightarrow> int \<Rightarrow> error + tile_ptr"
  ops_copy_tiles :: "tile_ptr \<Rightarrow> int \<Rightarrow> tile_ptr \<Rightarrow> 'w \<Rightarrow> 'w"
  ops_clear_tiles :: "int \<Rightarrow> tile_ptr \<Rightarrow> 'w \<Rightarrow> 'w"
  ops_plot_tiles :: "int \<Rightarrow> tile_ptr \<Rightarrow> int \<Rightarrow> int \<Rightarrow> int \<Rightarrow> tile_ptr \<Rightarrow> 'w \<Rightarrow> 'w"
  ops_utf8_character :: "8 word list \<Rightarrow> error + (int \<times> nat)"

text \<open>The division of two C++ integers rounds towards zero.\<close>

definition int_div :: "int \<Rightarrow> int \<Rightarrow> int" where
  "int_div a b = sgn a * sgn b * (\<bar>a\<bar> div \<bar>b\<bar>)"

definition max_columns_per_sprite :: int where
  "max_columns_per_sprite = 32"

definition fixed_character_width :: int where
  "fixed_character_width = 8"

definition fixed_max_characters_per_sprite :: int where
  "fixed_max_characters_per_sprite = int_div max_columns_per_sprite fixed_character_width"

definition character_widths_at :: "int list \<Rightarrow> int \<Rightarrow> error + int" where
  "character_widths_at character_widths i =
     (if 0 \<le> i \<and> nat i < length character_widths then Inr (character_widths ! nat i)
      else Inl Out_of_bounds_access)"

subsection \<open>The painters\<close>

text \<open>
  One record holds the members of the six painter classes that build sprites; a class
  reads and writes the members it declares. \<open>pt_output_sprites\<close> is the vector the painter refers to and
  \<open>pt_world\<close> the state of the managers. The generator a painter refers to is an
  argument of its operations.
\<close>

record ('w, 'f) painter =
  pt_palette :: sprite_palette_ptr
  pt_current_position :: "'f \<times> 'f"
  pt_tiles_vram :: tile_ptr
  pt_sprite_character_index :: int
  pt_sprite_column :: int
  pt_output_sprites :: "sprite_ptr ivector"
  pt_world :: 'w

definition new_painter ::
  "sprite_palette_ptr \<Rightarrow> 'f \<times> 'f \<Rightarrow> sprite_ptr ivector \<Rightarrow> 'w \<Rightarrow> ('w, 'f) painter" where
  "new_painter palette current_position output_sprites w =
     \<lparr> pt_palette = palette,
       pt_current_position = current_position,
       pt_tiles_vram = 0,
       pt_sprite_character_index = fixed_max_characters_per_sprite,
       pt_sprite_column = max_columns_per_sprite,
       pt_output_sprites = output_sprites,
       pt_world = w \<rparr>"

definition advance_x :: "'f fixed_lib \<Rightarrow> int \<Rightarrow> ('w, 'f) painter \<Rightarrow> ('w, 'f) painter" where
  "advance_x lib n pt =
     pt\<lparr> pt_current_position :=
           (fixed_add lib (fst (pt_current_position pt)) n, snd (pt_current_position pt)) \<rparr>"

definition build_sprite ::
  "('w, 'f) sprite_managers \<Rightarrow> sprite_size \<Rightarrow> int \<Rightarrow> bool \<Rightarrow> sprite_text_generator
   \<Rightarrow> sprite_palette_ptr \<Rightarrow> 'f \<times> 'f \<Rightarrow> sprite_ptr ivector \<Rightarrow> 'w
   \<Rightarrow> error + (tile_ptr \<times> sprite_ptr ivector \<times> 'w)" where
  "build_sprite ops size_arg max_tiles_per_sprite allow_failure generator palette
       current_position output_sprites w =
     (case (if allow_failure then
              (if vec_full output_sprites then Inr (None, w)
               else Inr (ops_tiles_allocate_optional ops max_tiles_per_sprite BPP_4 w))
            else
              (if vec_full output_sprites then Inl Vector_full
               else (case ops_tiles_allocate ops max_tiles_per_sprite BPP_4 w of
                       Inl e \<Rightarrow> Inl e
                     | Inr (t, w1) \<Rightarrow> Inr (Some t, w1)))) of
        Inl e \<Rightarrow> Inl e
      | Inr (None, w1) \<Rightarrow> Inr (0, output_sprites, w1)
      | Inr (Some tiles_ptr, w1) \<Rightarrow>
          (let tiles_vram = ops_tiles_vram_data ops tiles_ptr w1;
               builder = \<lparr> builder_shape = WIDE, builder_size = size_arg,
                           builder_tiles = tiles_ptr, builder_palette = palette,
                           builder_position = current_position,
                           builder_bg_priority = gen_bg_priority generator,
                           builder_z_order = gen_z_order generator \<rparr>
           in if allow_failure then
                (case ops_sprite_create_optional ops builder w1 of
                   (None, w2) \<Rightarrow> Inr (0, output_sprites, w2)
                 | (Some sprite, w2) \<Rightarrow>
                     (case vec_push_back sprite output_sprites of
                        Inl e \<Rightarrow> Inl e
                      | Inr output_sprites' \<Rightarrow> Inr (tiles_vram, output_sprites', w2)))
              else
                (case ops_sprite_create ops builder w1 of
                   Inl e \<Rightarrow> Inl e
                 | Inr (sprite, w2) \<Rightarrow>
                     (case vec_push_back sprite output_sprites of
                        Inl e \<Rightarrow> Inl e
                      | Inr output_sprites' \<Rightarrow> Inr (tiles_vram, output_sprites', w2)))))"

paragraph \<open>\<^verbatim>\<open>fixed_width_painter\<close> and \<^verbatim>\<open>variable_width_painter\<close>\<close>

record width_painter =
  wp_width :: int

definition fixed_width_paint_space ::
  "sprite_text_generator \<Rightarrow> width_painter \<Rightarrow> error + width_painter" where
  "fixed_width_paint_space generator pt =
     Inr (pt\<lparr> wp_width := wp_width pt + (fixed_character_width
                 + font_space_between_characters (gen_font generator)) \<rparr>)"

definition fixed_width_paint_tab ::
  "sprite_text_generator \<Rightarrow> width_painter \<Rightarrow> error + width_painter" where
  "fixed_width_paint_tab generator pt =
     Inr (pt\<lparr> wp_width := wp_width pt + ((fixed_character_width * 4)
                 + font_space_between_characters (gen_font generator)) \<rparr>)"

definition fixed_width_paint_character ::
  "sprite_text_generator \<Rightarrow> int \<Rightarrow> width_painter \<Rightarrow> error + (bool \<times> width_painter)" where
  "fixed_width_paint_character generator graphics_index pt =
     Inr (True, pt\<lparr> wp_width := wp_width pt + (fixed_character_width
                       + font_space_between_characters (gen_font generator)) \<rparr>)"

definition variable_width_paint_space ::
  "sprite_text_generator \<Rightarrow> width_painter \<Rightarrow> error + width_painter" where
  "variable_width_paint_space generator pt =
     (case character_widths_at (font_character_widths_ref (gen_font generator)) 0 of
        Inl e \<Rightarrow> Inl e
      | Inr w0 \<Rightarrow>
          Inr (pt\<lparr> wp_width := wp_width pt
                      + (w0 + font_space_between_characters (gen_font generator)) \<rparr>))"

definition variable_width_paint_tab ::
  "sprite_text_generator \<Rightarrow> width_painter \<Rightarrow> error + width_painter" where
  "variable_width_paint_tab generator pt =
     (case character_widths_at (font_character_widths_ref (gen_font generator)) 0 of
        Inl e \<Rightarrow> Inl e
      | Inr w0 \<Rightarrow>
          Inr (pt\<lparr> wp_width := wp_width pt
                      + ((w0 * 4) + font_space_between_characters (gen_font generator)) \<rparr>))"

definition variable_width_paint_character ::
  "sprite_text_generator \<Rightarrow> int \<Rightarrow> width_painter \<Rightarrow> error + (bool \<times> width_painter)" where
  "variable_width_paint_character generator graphics_index pt =
     (case character_widths_at (font_character_widths_ref (gen_font generator))
             (graphics_index + 1) of
        Inl e \<Rightarrow> Inl e
      | Inr wi \<Rightarrow>
          Inr (True, pt\<lparr> wp_width := wp_width pt
                            + (wi + font_space_between_characters (gen_font generator)) \<rparr>))"

paragraph \<open>\<^verbatim>\<open>fixed_one_sprite_per_character_painter\<close> and its variable width sibling\<close>

text \<open>
  The two classes create the sprite of a character with the same statements, which are
  \<open>create_character_sprite\<close>: the answer is false where the class returns false.
\<close>

definition create_character_sprite ::
  "('w, 'f) sprite_managers \<Rightarrow> bool \<Rightarrow> sprite_text_generator \<Rightarrow> int \<Rightarrow> ('w, 'f) painter
   \<Rightarrow> error + (bool \<times> ('w, 'f) painter)" where
  "create_character_sprite ops allow_failure generator graphics_index pt =
     (if allow_failure \<and> vec_full (pt_output_sprites pt) then Inr (False, pt)
      else if \<not> allow_failure \<and> vec_full (pt_output_sprites pt) then Inl Vector_full
      else
        (case (if allow_failure then
                 Inr (ops_tiles_create_optional ops (font_tiles_item (gen_font generator))
                        graphics_index (pt_world pt))
               else
                 (case ops_tiles_create ops (font_tiles_item (gen_font generator)) graphics_index
                         (pt_world pt) of
                    Inl e \<Rightarrow> Inl e
                  | Inr (t, w1) \<Rightarrow> Inr (Some t, w1))) of
           Inl e \<Rightarrow> Inl e
         | Inr (None, w1) \<Rightarrow> Inr (False, pt\<lparr> pt_world := w1 \<rparr>)
         | Inr (Some source_tiles_ptr, w1) \<Rightarrow>
             (let builder = \<lparr> builder_shape = font_item_shape (gen_font generator),
                              builder_size = SMALL,
                              builder_tiles = source_tiles_ptr,
                              builder_palette = pt_palette pt,
                              builder_position = pt_current_position pt,
                              builder_bg_priority = gen_bg_priority generator,
                              builder_z_order = gen_z_order generator \<rparr>
              in if allow_failure then
                   (case ops_sprite_create_optional ops builder w1 of
                      (None, w2) \<Rightarrow> Inr (False, pt\<lparr> pt_world := w2 \<rparr>)
                    | (Some sprite, w2) \<Rightarrow>
                        (case vec_push_back sprite (pt_output_sprites pt) of
                           Inl e \<Rightarrow> Inl e
                         | Inr output_sprites' \<Rightarrow>
                             Inr (True, pt\<lparr> pt_output_sprites := output_sprites',
                                            pt_world := w2 \<rparr>)))
                 else
                   (case ops_sprite_create ops builder w1 of
                      Inl e \<Rightarrow> Inl e
                    | Inr (sprite, w2) \<Rightarrow>
                        (case vec_push_back sprite (pt_output_sprites pt) of
                           Inl e \<Rightarrow> Inl e
                         | Inr output_sprites' \<Rightarrow>
                             Inr (True, pt\<lparr> pt_output_sprites := output_sprites',
                                            pt_world := w2 \<rparr>))))))"

definition fixed_one_sprite_paint_space ::
  "'f fixed_lib \<Rightarrow> sprite_text_generator \<Rightarrow> ('w, 'f) painter \<Rightarrow> error + ('w, 'f) painter" where
  "fixed_one_sprite_paint_space lib generator pt =
     Inr (advance_x lib (font_space_between_characters (gen_font generator))
            (advance_x lib fixed_character_width pt))"

definition fixed_one_sprite_paint_tab ::
  "'f fixed_lib \<Rightarrow> sprite_text_generator \<Rightarrow> ('w, 'f) painter \<Rightarrow> error + ('w, 'f) painter" where
  "fixed_one_sprite_paint_tab lib generator pt =
     Inr (advance_x lib (font_space_between_characters (gen_font generator))
            (advance_x lib (fixed_character_width * 4) pt))"

definition fixed_one_sprite_paint_character ::
  "('w, 'f) sprite_managers \<Rightarrow> 'f fixed_lib \<Rightarrow> bool \<Rightarrow> sprite_text_generator \<Rightarrow> int
   \<Rightarrow> ('w, 'f) painter \<Rightarrow> error + (bool \<times> ('w, 'f) painter)" where
  "fixed_one_sprite_paint_character ops lib allow_failure generator graphics_index pt =
     (case create_character_sprite ops allow_failure generator graphics_index pt of
        Inl e \<Rightarrow> Inl e
      | Inr (False, pt1) \<Rightarrow> Inr (False, pt1)
      | Inr (True, pt1) \<Rightarrow>
          Inr (True, advance_x lib (font_space_between_characters (gen_font generator))
                       (advance_x lib fixed_character_width pt1)))"

definition variable_one_sprite_paint_space ::
  "'f fixed_lib \<Rightarrow> sprite_text_generator \<Rightarrow> ('w, 'f) painter \<Rightarrow> error + ('w, 'f) painter" where
  "variable_one_sprite_paint_space lib generator pt =
     (case character_widths_at (font_character_widths_ref (gen_font generator)) 0 of
        Inl e \<Rightarrow> Inl e
      | Inr w0 \<Rightarrow>
          Inr (advance_x lib (font_space_between_characters (gen_font generator))
                 (advance_x lib w0 pt)))"

definition variable_one_sprite_paint_tab ::
  "'f fixed_lib \<Rightarrow> sprite_text_generator \<Rightarrow> ('w, 'f) painter \<Rightarrow> error + ('w, 'f) painter" where
  "variable_one_sprite_paint_tab lib generator pt =
     (case character_widths_at (font_character_widths_ref (gen_font generator)) 0 of
        Inl e \<Rightarrow> Inl e
      | Inr w0 \<Rightarrow>
          Inr (advance_x lib (font_space_between_characters (gen_font generator))
                 (advance_x lib (w0 * 4) pt)))"

definition variable_one_sprite_paint_character ::
  "('w, 'f) sprite_managers \<Rightarrow> 'f fixed_lib \<Rightarrow> bool \<Rightarrow> sprite_text_generator \<Rightarrow> int
   \<Rightarrow> ('w, 'f) painter \<Rightarrow> error + (bool \<times> ('w, 'f) painter)" where
  "variable_one_sprite_paint_character ops lib allow_failure generator graphics_index pt =
     (case character_widths_at (font_character_widths_ref (gen_font generator))
             (graphics_index + 1) of
        Inl e \<Rightarrow> Inl e
      | Inr character_width \<Rightarrow>
          (if character_width \<noteq> 0 then
             (case create_character_sprite ops allow_failure generator graphics_index pt of
                Inl e \<Rightarrow> Inl e
              | Inr (False, pt1) \<Rightarrow> Inr (False, pt1)
              | Inr (True, pt1) \<Rightarrow>
                  Inr (True, advance_x lib (font_space_between_characters (gen_font generator))
                               (advance_x lib character_width pt1)))
           else
             Inr (True, advance_x lib (font_space_between_characters (gen_font generator)) pt)))"

paragraph \<open>\<^verbatim>\<open>fixed_8x8_painter\<close> and \<^verbatim>\<open>fixed_8x16_painter\<close>\<close>

text \<open>
  The two classes differ in the sprite they build (\<open>NORMAL\<close> with 4 tiles, \<open>BIG\<close> with 8)
  and in the rows of tiles they copy and clear (one, two): \<open>rows\<close> is 1 for the first
  and 2 for the second.
\<close>

definition fixed_clear ::
  "('w, 'f) sprite_managers \<Rightarrow> nat \<Rightarrow> int \<Rightarrow> ('w, 'f) painter \<Rightarrow> ('w, 'f) painter" where
  "fixed_clear ops rows characters pt =
     (let up_tiles_vram_ptr = pt_tiles_vram pt + pt_sprite_character_index pt;
          w1 = ops_clear_tiles ops characters up_tiles_vram_ptr (pt_world pt)
      in if rows = 1 then pt\<lparr> pt_world := w1 \<rparr>
         else
           (let down_tiles_vram_ptr = up_tiles_vram_ptr + fixed_max_characters_per_sprite
            in pt\<lparr> pt_world := ops_clear_tiles ops characters down_tiles_vram_ptr w1 \<rparr>))"

definition fixed_clear_left ::
  "('w, 'f) sprite_managers \<Rightarrow> nat \<Rightarrow> ('w, 'f) painter \<Rightarrow> ('w, 'f) painter" where
  "fixed_clear_left ops rows pt =
     (if pt_sprite_character_index pt < fixed_max_characters_per_sprite then
        (fixed_clear ops rows
           (fixed_max_characters_per_sprite - pt_sprite_character_index pt) pt)
          \<lparr> pt_sprite_character_index := fixed_max_characters_per_sprite \<rparr>
      else pt)"

definition fixed_paint_space ::
  "('w, 'f) sprite_managers \<Rightarrow> 'f fixed_lib \<Rightarrow> nat \<Rightarrow> sprite_text_generator
   \<Rightarrow> ('w, 'f) painter \<Rightarrow> error + ('w, 'f) painter" where
  "fixed_paint_space ops lib rows generator pt =
     (let pt1 = (if pt_sprite_character_index pt < fixed_max_characters_per_sprite then
                   (fixed_clear ops rows 1 pt)
                     \<lparr> pt_sprite_character_index := pt_sprite_character_index pt + 1 \<rparr>
                 else pt)
      in Inr (advance_x lib (font_space_between_characters (gen_font generator))
                (advance_x lib fixed_character_width pt1)))"

definition fixed_paint_tab ::
  "('w, 'f) sprite_managers \<Rightarrow> 'f fixed_lib \<Rightarrow> nat \<Rightarrow> sprite_text_generator
   \<Rightarrow> ('w, 'f) painter \<Rightarrow> error + ('w, 'f) painter" where
  "fixed_paint_tab ops lib rows generator pt =
     Inr (advance_x lib (font_space_between_characters (gen_font generator))
            (advance_x lib (fixed_character_width * 4) (fixed_clear_left ops rows pt)))"

definition fixed_paint_character ::
  "('w, 'f) sprite_managers \<Rightarrow> 'f fixed_lib \<Rightarrow> nat \<Rightarrow> bool \<Rightarrow> sprite_text_generator \<Rightarrow> int
   \<Rightarrow> ('w, 'f) painter \<Rightarrow> error + (bool \<times> ('w, 'f) painter)" where
  "fixed_paint_character ops lib rows allow_failure generator graphics_index pt =
     (case (if pt_sprite_character_index pt = fixed_max_characters_per_sprite then
              (case build_sprite ops (if rows = 1 then NORMAL else BIG)
                      (if rows = 1 then fixed_max_characters_per_sprite
                       else fixed_max_characters_per_sprite * 2)
                      allow_failure generator (pt_palette pt) (pt_current_position pt)
                      (pt_output_sprites pt) (pt_world pt) of
                 Inl e \<Rightarrow> Inl e
               | Inr (tiles_vram, output_sprites', w1) \<Rightarrow>
                   (let pt1 = pt\<lparr> pt_tiles_vram := tiles_vram,
                                   pt_output_sprites := output_sprites',
                                   pt_world := w1 \<rparr>
                    in if allow_failure \<and> tiles_vram = 0 then Inr (False, pt1)
                       else Inr (True, pt1\<lparr> pt_sprite_character_index := 0 \<rparr>)))
            else Inr (True, pt)) of
        Inl e \<Rightarrow> Inl e
      | Inr (False, pt1) \<Rightarrow> Inr (False, pt1)
      | Inr (True, pt1) \<Rightarrow>
          (case ops_graphics_tiles_ref_data ops (font_tiles_item (gen_font generator))
                  graphics_index of
             Inl e \<Rightarrow> Inl e
           | Inr source_tiles_data \<Rightarrow>
               (let up_tiles_vram_ptr = pt_tiles_vram pt1 + pt_sprite_character_index pt1;
                    w1 = ops_copy_tiles ops source_tiles_data 1 up_tiles_vram_ptr (pt_world pt1);
                    w2 = (if rows = 1 then w1
                          else ops_copy_tiles ops (source_tiles_data + 1) 1
                                 (up_tiles_vram_ptr + fixed_max_characters_per_sprite) w1);
                    pt2 = advance_x lib (font_space_between_characters (gen_font generator))
                            (advance_x lib fixed_character_width (pt1\<lparr> pt_world := w2 \<rparr>))
                in Inr (True, pt2\<lparr> pt_sprite_character_index :=
                                     pt_sprite_character_index pt1 + 1 \<rparr>))))"

paragraph \<open>\<^verbatim>\<open>variable_8x8_painter\<close> and \<^verbatim>\<open>variable_8x16_painter\<close>\<close>

text \<open>
  The two classes differ in the constants \<^verbatim>\<open>_character_height\<close> (8, 16) and \<^verbatim>\<open>_tiles\<close>
  (4, 8), in the size of the sprite they build, and in the second \<^verbatim>\<open>plot_tiles\<close> call of
  the taller one.
\<close>

definition variable_paint_space ::
  "'f fixed_lib \<Rightarrow> sprite_text_generator \<Rightarrow> ('w, 'f) painter \<Rightarrow> error + ('w, 'f) painter" where
  "variable_paint_space lib generator pt =
     (case character_widths_at (font_character_widths_ref (gen_font generator)) 0 of
        Inl e \<Rightarrow> Inl e
      | Inr w0 \<Rightarrow>
          (let width_with_space = w0 + font_space_between_characters (gen_font generator)
           in Inr (advance_x lib width_with_space
                     (pt\<lparr> pt_sprite_column := pt_sprite_column pt + width_with_space \<rparr>))))"

definition variable_paint_tab ::
  "'f fixed_lib \<Rightarrow> sprite_text_generator \<Rightarrow> ('w, 'f) painter \<Rightarrow> error + ('w, 'f) painter" where
  "variable_paint_tab lib generator pt =
     (case character_widths_at (font_character_widths_ref (gen_font generator)) 0 of
        Inl e \<Rightarrow> Inl e
      | Inr w0 \<Rightarrow>
          (let width_with_space = (w0 * 4) + font_space_between_characters (gen_font generator)
           in Inr (advance_x lib width_with_space
                     (pt\<lparr> pt_sprite_column := pt_sprite_column pt + width_with_space \<rparr>))))"

definition variable_paint_character ::
  "('w, 'f) sprite_managers \<Rightarrow> 'f fixed_lib \<Rightarrow> int \<Rightarrow> bool \<Rightarrow> sprite_text_generator \<Rightarrow> int
   \<Rightarrow> ('w, 'f) painter \<Rightarrow> error + (bool \<times> ('w, 'f) painter)" where
  "variable_paint_character ops lib character_height allow_failure generator graphics_index pt =
     (case character_widths_at (font_character_widths_ref (gen_font generator))
             (graphics_index + 1) of
        Inl e \<Rightarrow> Inl e
      | Inr width \<Rightarrow>
          (if width \<noteq> 0 then
             (let width_with_space = width + font_space_between_characters (gen_font generator);
                  tiles = (if character_height = 8 then 4 else 8)
              in case (if pt_sprite_column pt + width_with_space > max_columns_per_sprite then
                         (case build_sprite ops (if character_height = 8 then NORMAL else BIG)
                                 tiles allow_failure generator (pt_palette pt)
                                 (pt_current_position pt) (pt_output_sprites pt)
                                 (pt_world pt) of
                            Inl e \<Rightarrow> Inl e
                          | Inr (tiles_vram, output_sprites', w1) \<Rightarrow>
                              (let pt1 = pt\<lparr> pt_tiles_vram := tiles_vram,
                                              pt_output_sprites := output_sprites',
                                              pt_world := w1 \<rparr>
                               in if allow_failure \<and> tiles_vram = 0 then Inr (False, pt1)
                                  else Inr (True, pt1\<lparr> pt_world :=
                                                          ops_clear_tiles ops tiles tiles_vram w1,
                                                        pt_sprite_column := 0 \<rparr>)))
                       else Inr (True, pt)) of
                   Inl e \<Rightarrow> Inl e
                 | Inr (False, pt1) \<Rightarrow> Inr (False, pt1)
                 | Inr (True, pt1) \<Rightarrow>
                     (let tiles_item = font_tiles_item (gen_font generator);
                          source_tiles_data = tiles_ref_data tiles_item;
                          source_height = graphics_count tiles_item * character_height;
                          source_y = graphics_index * character_height;
                          w1 = ops_plot_tiles ops width source_tiles_data source_height source_y
                                 (pt_sprite_column pt1) (pt_tiles_vram pt1) (pt_world pt1);
                          w2 = (if character_height = 8 then w1
                                else ops_plot_tiles ops width source_tiles_data source_height
                                       (source_y + (int_div character_height 2))
                                       (pt_sprite_column pt1 + (character_height * 2))
                                       (pt_tiles_vram pt1) w1)
                      in Inr (True, advance_x lib width_with_space
                                      (pt1\<lparr> pt_world := w2,
                                            pt_sprite_column :=
                                              pt_sprite_column pt1 + width_with_space \<rparr>))))
           else
             (let space = font_space_between_characters (gen_font generator)
              in Inr (True, advance_x lib space
                              (pt\<lparr> pt_sprite_column := pt_sprite_column pt + space \<rparr>)))))"

subsection \<open>\<^verbatim>\<open>paint\<close>\<close>

text \<open>
  The loop of \<^verbatim>\<open>paint\<close> moves through the text by the size \<^verbatim>\<open>utf8_character\<close> answers,
  so it is not bound to end: it runs on fuel, and \<open>None\<close> is the loop that has not
  returned. The painter class is the three operations the loop calls.
\<close>

fun paint ::
  "nat \<Rightarrow> bool \<Rightarrow> (8 word list \<Rightarrow> error + (int \<times> nat))
   \<Rightarrow> ('p \<Rightarrow> error + 'p) \<Rightarrow> ('p \<Rightarrow> error + 'p) \<Rightarrow> (int \<Rightarrow> 'p \<Rightarrow> error + (bool \<times> 'p))
   \<Rightarrow> 8 word list \<Rightarrow> (int \<Rightarrow> int option) \<Rightarrow> nat \<Rightarrow> 'p \<Rightarrow> (error + (bool \<times> 'p)) option" where
  "paint 0 allow_failure utf8 paint_space paint_tab paint_character text utf8_characters_map
     text_index painter = None"
| "paint (Suc fuel) allow_failure utf8 paint_space paint_tab paint_character text
     utf8_characters_map text_index painter =
     (if text_index < length text then
        (let character = text ! text_index
         in if character = 0x20 then
              (case paint_space painter of
                 Inl e \<Rightarrow> Some (Inl e)
               | Inr painter' \<Rightarrow>
                   paint fuel allow_failure utf8 paint_space paint_tab paint_character text
                     utf8_characters_map (text_index + 1) painter')
            else if character = 0x09 then
              (case paint_tab painter of
                 Inl e \<Rightarrow> Some (Inl e)
               | Inr painter' \<Rightarrow>
                   paint fuel allow_failure utf8 paint_space paint_tab paint_character text
                     utf8_characters_map (text_index + 1) painter')
            else if character \<ge> 0x21 then
              (case (if character \<le> 0x7E then Inr (uint character - 0x21, text_index + 1)
                     else
                       (case utf8 (drop text_index text) of
                          Inl e \<Rightarrow> Inl e
                        | Inr (utf8_data, utf8_size) \<Rightarrow>
                            (case utf8_characters_map utf8_data of
                               None \<Rightarrow> Inl Utf8_character_not_found
                             | Some second \<Rightarrow> Inr (second, text_index + utf8_size)))) of
                 Inl e \<Rightarrow> Some (Inl e)
               | Inr (graphics_index, text_index') \<Rightarrow>
                   (case paint_character graphics_index painter of
                      Inl e \<Rightarrow> Some (Inl e)
                    | Inr (success, painter') \<Rightarrow>
                        (if allow_failure \<and> \<not> success then Some (Inr (False, painter'))
                         else paint fuel allow_failure utf8 paint_space paint_tab
                                paint_character text utf8_characters_map text_index' painter')))
            else Some (Inl Invalid_character))
      else Some (Inr (True, painter)))"

subsection \<open>\<^verbatim>\<open>width\<close>, \<^verbatim>\<open>_generate\<close> and \<^verbatim>\<open>generate_optional\<close>\<close>

definition width ::
  "nat \<Rightarrow> ('w, 'f) sprite_managers \<Rightarrow> sprite_text_generator \<Rightarrow> 8 word list
   \<Rightarrow> (error + int) option" where
  "width fuel ops generator text =
     (case (if font_character_widths_ref (gen_font generator) = [] then
              paint fuel False (ops_utf8_character ops) (fixed_width_paint_space generator)
                (fixed_width_paint_tab generator) (fixed_width_paint_character generator)
                text (gen_utf8_characters_map generator) 0 \<lparr> wp_width = 0 \<rparr>
            else
              paint fuel False (ops_utf8_character ops) (variable_width_paint_space generator)
                (variable_width_paint_tab generator) (variable_width_paint_character generator)
                text (gen_utf8_characters_map generator) 0 \<lparr> wp_width = 0 \<rparr>) of
        None \<Rightarrow> None
      | Some (Inl e) \<Rightarrow> Some (Inl e)
      | Some (Inr (success, painter)) \<Rightarrow> Some (Inr (wp_width painter)))"

text \<open>
  \<^verbatim>\<open>_generate<allow_failure>\<close>. The destructor of the two fixed width tile painters
  clears the tiles left in the last sprite when the painter goes out of scope, before
  the vector is shrunk. The three alignments are all the values of the enumeration.
\<close>

definition generate_template ::
  "nat \<Rightarrow> bool \<Rightarrow> ('w, 'f) sprite_managers \<Rightarrow> 'f fixed_lib \<Rightarrow> sprite_text_generator
   \<Rightarrow> 'f \<times> 'f \<Rightarrow> 8 word list \<Rightarrow> (int \<Rightarrow> int option) \<Rightarrow> sprite_ptr ivector \<Rightarrow> 'w
   \<Rightarrow> (error + (bool \<times> sprite_ptr ivector \<times> 'w)) option" where
  "generate_template fuel allow_failure ops lib generator position text utf8_characters_map
       output_sprites w =
     (case (if allow_failure then
              Inr (ops_create_palette_optional ops (gen_palette_item generator) w)
            else
              (case ops_create_palette ops (gen_palette_item generator) w of
                 Inl e \<Rightarrow> Inl e
               | Inr (p, w1) \<Rightarrow> Inr (Some p, w1))) of
        Inl e \<Rightarrow> Some (Inl e)
      | Inr (None, w1) \<Rightarrow> Some (Inr (False, output_sprites, w1))
      | Inr (Some palette, w1) \<Rightarrow>
          (case (case gen_alignment generator of
                   LEFT \<Rightarrow> Some (Inr position)
                 | CENTER \<Rightarrow>
                     (case width fuel ops generator text of
                        None \<Rightarrow> None
                      | Some (Inl e) \<Rightarrow> Some (Inl e)
                      | Some (Inr text_width) \<Rightarrow>
                          Some (Inr (fixed_sub lib (fst position) (int_div text_width 2),
                                     snd position)))
                 | RIGHT \<Rightarrow>
                     (case width fuel ops generator text of
                        None \<Rightarrow> None
                      | Some (Inl e) \<Rightarrow> Some (Inl e)
                      | Some (Inr text_width) \<Rightarrow>
                          Some (Inr (fixed_sub lib (fst position) text_width,
                                     snd position)))) of
             None \<Rightarrow> None
           | Some (Inl e) \<Rightarrow> Some (Inl e)
           | Some (Inr aligned_position) \<Rightarrow>
               (let font = gen_font generator;
                    output_sprites_count = vec_size output_sprites;
                    one_sprite_position =
                      (fixed_add lib (fst aligned_position) (int_div fixed_character_width 2),
                       snd aligned_position);
                    tiles_position =
                      (fixed_add lib (fst aligned_position) (int_div max_columns_per_sprite 2),
                       snd aligned_position);
                    painted =
                      (if gen_one_sprite_per_character generator then
                         (if font_character_widths_ref font = [] then
                            paint fuel allow_failure (ops_utf8_character ops)
                              (fixed_one_sprite_paint_space lib generator)
                              (fixed_one_sprite_paint_tab lib generator)
                              (fixed_one_sprite_paint_character ops lib allow_failure generator)
                              text utf8_characters_map 0
                              (new_painter palette one_sprite_position output_sprites w1)
                          else
                            paint fuel allow_failure (ops_utf8_character ops)
                              (variable_one_sprite_paint_space lib generator)
                              (variable_one_sprite_paint_tab lib generator)
                              (variable_one_sprite_paint_character ops lib allow_failure
                                 generator)
                              text utf8_characters_map 0
                              (new_painter palette one_sprite_position output_sprites w1))
                       else
                         (if font_item_height font = 8 then
                            (if font_character_widths_ref font = [] then
                               (case paint fuel allow_failure (ops_utf8_character ops)
                                       (fixed_paint_space ops lib 1 generator)
                                       (fixed_paint_tab ops lib 1 generator)
                                       (fixed_paint_character ops lib 1 allow_failure generator)
                                       text utf8_characters_map 0
                                       (new_painter palette tiles_position output_sprites w1) of
                                  None \<Rightarrow> None
                                | Some (Inl e) \<Rightarrow> Some (Inl e)
                                | Some (Inr (success, pt)) \<Rightarrow>
                                    Some (Inr (success, fixed_clear_left ops 1 pt)))
                             else
                               paint fuel allow_failure (ops_utf8_character ops)
                                 (variable_paint_space lib generator)
                                 (variable_paint_tab lib generator)
                                 (variable_paint_character ops lib 8 allow_failure generator)
                                 text utf8_characters_map 0
                                 (new_painter palette tiles_position output_sprites w1))
                          else
                            (if font_character_widths_ref font = [] then
                               (case paint fuel allow_failure (ops_utf8_character ops)
                                       (fixed_paint_space ops lib 2 generator)
                                       (fixed_paint_tab ops lib 2 generator)
                                       (fixed_paint_character ops lib 2 allow_failure generator)
                                       text utf8_characters_map 0
                                       (new_painter palette tiles_position output_sprites w1) of
                                  None \<Rightarrow> None
                                | Some (Inl e) \<Rightarrow> Some (Inl e)
                                | Some (Inr (success, pt)) \<Rightarrow>
                                    Some (Inr (success, fixed_clear_left ops 2 pt)))
                             else
                               paint fuel allow_failure (ops_utf8_character ops)
                                 (variable_paint_space lib generator)
                                 (variable_paint_tab lib generator)
                                 (variable_paint_character ops lib 16 allow_failure generator)
                                 text utf8_characters_map 0
                                 (new_painter palette tiles_position output_sprites w1))))
                in case painted of
                     None \<Rightarrow> None
                   | Some (Inl e) \<Rightarrow> Some (Inl e)
                   | Some (Inr (success, pt)) \<Rightarrow>
                       (if allow_failure \<and> \<not> success then
                          (case vec_shrink output_sprites_count (pt_output_sprites pt) of
                             Inl e \<Rightarrow> Some (Inl e)
                           | Inr output_sprites' \<Rightarrow>
                               Some (Inr (success, output_sprites', pt_world pt)))
                        else Some (Inr (success, pt_output_sprites pt, pt_world pt))))))"

definition generate ::
  "nat \<Rightarrow> ('w, 'f) sprite_managers \<Rightarrow> 'f fixed_lib \<Rightarrow> sprite_text_generator \<Rightarrow> 'f \<times> 'f
   \<Rightarrow> 8 word list \<Rightarrow> sprite_ptr ivector \<Rightarrow> 'w \<Rightarrow> (error + (sprite_ptr ivector \<times> 'w)) option" where
  "generate fuel ops lib generator position text output_sprites w =
     map_option (map_sum (\<lambda>e. e) snd)
       (generate_template fuel False ops lib generator position text
          (gen_utf8_characters_map generator) output_sprites w)"

definition generate_optional ::
  "nat \<Rightarrow> ('w, 'f) sprite_managers \<Rightarrow> 'f fixed_lib \<Rightarrow> sprite_text_generator \<Rightarrow> 'f \<times> 'f
   \<Rightarrow> 8 word list \<Rightarrow> sprite_ptr ivector \<Rightarrow> 'w
   \<Rightarrow> (error + (bool \<times> sprite_ptr ivector \<times> 'w)) option" where
  "generate_optional fuel ops lib generator position text output_sprites w =
     generate_template fuel True ops lib generator position text
       (gen_utf8_characters_map generator) output_sprites w"

subsection \<open>Vectors that grow at the end\<close>

text \<open>\<open>extends v v'\<close>: the vector \<open>v'\<close> is \<open>v\<close> with elements appended.\<close>

definition extends :: "'a ivector \<Rightarrow> 'a ivector \<Rightarrow> bool" where
  "extends v v' \<longleftrightarrow> (\<exists>ys. v' = v\<lparr> vec_data := vec_data v @ ys \<rparr>)"

section \<open>Memory pool and resource handle registry\<close>

subsection \<open>Memory pool\<close>

text \<open>
  Modelled from the spec: the palette and tiles managers behind \<^verbatim>\<open>sprite_palette_ptr\<close> and
  \<^verbatim>\<open>affine_bg_tiles_ptr\<close> are not among the sources. A pool is the list of the blocks of
  one bank in address order. \<open>allocate\<close> takes the first free block that is long enough
  and splits it; it does not compact. \<open>pool_release\<close> marks the block free and merges
  adjacent free blocks. \<open>compact\<close> moves the blocks in use to the front of the bank, in
  their order, and leaves one trailing free block; \<open>relocations\<close> lists the old offset,
  the new offset and the length of every block it moves.
\<close>

record memory_block =
  block_start_offset :: nat
  block_length :: nat
  block_in_use :: bool

fun allocate :: "nat \<Rightarrow> memory_block list \<Rightarrow> (nat \<times> memory_block list) option" where
  "allocate len [] = None"
| "allocate len (b # bs) =
     (if \<not> block_in_use b \<and> len \<le> block_length b then
        (if block_length b = len then
           Some (block_start_offset b, b\<lparr> block_in_use := True \<rparr> # bs)
         else
           Some (block_start_offset b,
                 \<lparr> block_start_offset = block_start_offset b, block_length = len,
                   block_in_use = True \<rparr>
                 # \<lparr> block_start_offset = block_start_offset b + len,
                     block_length = block_length b - len, block_in_use = False \<rparr>
                 # bs))
      else
        (case allocate len bs of
           None \<Rightarrow> None
         | Some (offset, bs') \<Rightarrow> Some (offset, b # bs')))"

fun mark_free :: "nat \<Rightarrow> nat \<Rightarrow> memory_block list \<Rightarrow> memory_block list" where
  "mark_free offset len [] = []"
| "mark_free offset len (b # bs) =
     (if block_in_use b \<and> block_start_offset b = offset \<and> block_length b = len
      then b\<lparr> block_in_use := False \<rparr> # bs
      else b # mark_free offset len bs)"

fun merge_free :: "memory_block list \<Rightarrow> memory_block list" where
  "merge_free (a # b # bs) =
     (if \<not> block_in_use a \<and> \<not> block_in_use b
      then merge_free (a\<lparr> block_length := block_length a + block_length b \<rparr> # bs)
      else a # merge_free (b # bs))"
| "merge_free bs = bs"

definition pool_release :: "nat \<Rightarrow> nat \<Rightarrow> memory_block list \<Rightarrow> memory_block list" where
  "pool_release offset len bs = merge_free (mark_free offset len bs)"

definition total_free :: "memory_block list \<Rightarrow> nat" where
  "total_free bs = sum_list (map block_length (filter (\<lambda>b. \<not> block_in_use b) bs))"

definition total_used :: "memory_block list \<Rightarrow> nat" where
  "total_used bs = sum_list (map block_length (filter block_in_use bs))"

fun relocate_blocks :: "nat \<Rightarrow> memory_block list \<Rightarrow> memory_block list" where
  "relocate_blocks offset [] = []"
| "relocate_blocks offset (b # bs) =
     (if block_in_use b
      then b\<lparr> block_start_offset := offset \<rparr> # relocate_blocks (offset + block_length b) bs
      else relocate_blocks offset bs)"

fun relocations :: "nat \<Rightarrow> memory_block list \<Rightarrow> (nat \<times> nat \<times> nat) list" where
  "relocations offset [] = []"
| "relocations offset (b # bs) =
     (if block_in_use b then
        (if block_start_offset b = offset then relocations (offset + block_length b) bs
         else (block_start_offset b, offset, block_length b)
              # relocations (offset + block_length b) bs)
      else relocations offset bs)"

definition compact :: "memory_block list \<Rightarrow> memory_block list" where
  "compact bs =
     relocate_blocks 0 bs
     @ (if 0 < total_free bs
        then [\<lparr> block_start_offset = total_used bs, block_length = total_free bs,
                block_in_use = False \<rparr>]
        else [])"

subsection \<open>Resource handle registry\<close>

text \<open>
  Modelled from the spec: a handle records its bank, its range, its bits per pixel mode
  and its reference count; the registry owns the mapping from the content to the live
  handle, so a handle also records the content it was created for. A caller holds the
  id of a handle, never its offset. \<open>registry_find\<close> searches the live handles for the
  content and answers a new reference to the first hit. \<open>try_create\<close> is the creation
  both entry points share: a hit is a new reference; a miss allocates from the pool,
  after one compaction when the allocation failed although enough memory is free in
  total, and registers the handle with one reference.
\<close>

record 'c resource_handle =
  handle_content :: 'c
  handle_bank_id :: nat
  handle_start_offset :: nat
  handle_length :: nat
  handle_bpp :: bpp_mode
  handle_reference_count :: nat

record 'c content_descriptor =
  descriptor_content :: 'c
  descriptor_length :: nat
  descriptor_bpp :: bpp_mode

record 'c registry =
  reg_bank_id :: nat
  reg_pool :: "memory_block list"
  reg_handles :: "nat \<Rightarrow> 'c resource_handle option"
  reg_next_id :: nat

definition holds_content :: "'c registry \<Rightarrow> 'c \<Rightarrow> nat \<Rightarrow> bool" where
  "holds_content reg content i =
     (case reg_handles reg i of None \<Rightarrow> False | Some h \<Rightarrow> handle_content h = content)"

definition registry_lookup :: "'c \<Rightarrow> 'c registry \<Rightarrow> nat option" where
  "registry_lookup content reg = List.find (holds_content reg content) [0..<reg_next_id reg]"

definition add_reference :: "nat \<Rightarrow> 'c registry \<Rightarrow> 'c registry" where
  "add_reference i reg =
     (case reg_handles reg i of
        None \<Rightarrow> reg
      | Some h \<Rightarrow>
          reg\<lparr> reg_handles := (reg_handles reg)
                 (i \<mapsto> h\<lparr> handle_reference_count := Suc (handle_reference_count h) \<rparr>) \<rparr>)"

definition registry_find ::
  "'c content_descriptor \<Rightarrow> 'c registry \<Rightarrow> nat option \<times> 'c registry" where
  "registry_find c reg =
     (case registry_lookup (descriptor_content c) reg of
        None \<Rightarrow> (None, reg)
      | Some i \<Rightarrow> (Some i, add_reference i reg))"

definition relocate_handle ::
  "(nat \<times> nat \<times> nat) list \<Rightarrow> 'c resource_handle \<Rightarrow> 'c resource_handle" where
  "relocate_handle moved h =
     (case List.find (\<lambda>(old_offset, new_offset, len).
                        old_offset = handle_start_offset h \<and> len = handle_length h) moved of
        None \<Rightarrow> h
      | Some (old_offset, new_offset, len) \<Rightarrow> h\<lparr> handle_start_offset := new_offset \<rparr>)"

definition registry_compact :: "'c registry \<Rightarrow> 'c registry" where
  "registry_compact reg =
     reg\<lparr> reg_pool := compact (reg_pool reg),
          reg_handles :=
            (\<lambda>i. map_option (relocate_handle (relocations 0 (reg_pool reg)))
                   (reg_handles reg i)) \<rparr>"

definition register_handle ::
  "'c content_descriptor \<Rightarrow> nat \<Rightarrow> memory_block list \<Rightarrow> 'c registry \<Rightarrow> nat \<times> 'c registry" where
  "register_handle c offset pool reg =
     (reg_next_id reg,
      reg\<lparr> reg_pool := pool,
           reg_handles := (reg_handles reg)
             (reg_next_id reg \<mapsto>
                \<lparr> handle_content = descriptor_content c,
                  handle_bank_id = reg_bank_id reg,
                  handle_start_offset = offset,
                  handle_length = descriptor_length c,
                  handle_bpp = descriptor_bpp c,
                  handle_reference_count = 1 \<rparr>),
           reg_next_id := Suc (reg_next_id reg) \<rparr>)"

definition try_create ::
  "'c content_descriptor \<Rightarrow> 'c registry \<Rightarrow> nat option \<times> 'c registry" where
  "try_create c reg =
     (case registry_lookup (descriptor_content c) reg of
        Some i \<Rightarrow> (Some i, add_reference i reg)
      | None \<Rightarrow>
          (case allocate (descriptor_length c) (reg_pool reg) of
             Some (offset, pool) \<Rightarrow>
               (case register_handle c offset pool reg of (i, reg') \<Rightarrow> (Some i, reg'))
           | None \<Rightarrow>
               (if descriptor_length c \<le> total_free (reg_pool reg) then
                  (let compacted = registry_compact reg
                   in case allocate (descriptor_length c) (reg_pool compacted) of
                        Some (offset, pool) \<Rightarrow>
                          (case register_handle c offset pool compacted of
                             (i, reg') \<Rightarrow> (Some i, reg'))
                      | None \<Rightarrow> (None, compacted))
                else (None, reg))))"

definition registry_create ::
  "'c content_descriptor \<Rightarrow> 'c registry \<Rightarrow> error + (nat \<times> 'c registry)" where
  "registry_create c reg =
     (case try_create c reg of
        (Some i, reg') \<Rightarrow> Inr (i, reg')
      | (None, reg') \<Rightarrow> Inl Allocation_failed)"

definition registry_create_optional ::
  "'c content_descriptor \<Rightarrow> 'c registry \<Rightarrow> nat option \<times> 'c registry" where
  "registry_create_optional c reg = try_create c reg"

definition registry_release :: "nat \<Rightarrow> 'c registry \<Rightarrow> 'c registry" where
  "registry_release i reg =
     (case reg_handles reg i of
        None \<Rightarrow> reg
      | Some h \<Rightarrow>
          (if handle_reference_count h \<le> 1 then
             reg\<lparr> reg_pool := pool_release (handle_start_offset h) (handle_length h)
                                (reg_pool reg),
                  reg_handles := (reg_handles reg)(i := None) \<rparr>
           else
             reg\<lparr> reg_handles := (reg_handles reg)
                    (i \<mapsto> h\<lparr> handle_reference_count := handle_reference_count h - 1 \<rparr>) \<rparr>))"

definition handle_range :: "'c registry \<Rightarrow> nat \<Rightarrow> (nat \<times> nat \<times> nat) option" where
  "handle_range reg i =
     map_option (\<lambda>h. (handle_bank_id h, handle_start_offset h, handle_length h))
       (reg_handles reg i)"

definition reference_count :: "'c registry \<Rightarrow> nat \<Rightarrow> nat" where
  "reference_count reg i =
     (case reg_handles reg i of None \<Rightarrow> 0 | Some h \<Rightarrow> handle_reference_count h)"

subsection \<open>\<^verbatim>\<open>sprite_palette_item\<close> and \<^verbatim>\<open>affine_bg_tiles_item\<close>\<close>

text \<open>The constructor of \<^verbatim>\<open>sprite_palette_item\<close> asserts the colours count.\<close>

definition new_sprite_palette_item ::
  "color list \<Rightarrow> bpp_mode \<Rightarrow> error + sprite_palette_item" where
  "new_sprite_palette_item colors bpp =
     (if (bpp = BPP_4 \<and> length colors = 16)
         \<or> (bpp = BPP_8 \<and> length colors \<ge> 16 \<and> length colors \<le> 256
             \<and> length colors mod 16 = 0)
      then Inr \<lparr> item_colors = colors, item_bpp_mode = bpp \<rparr>
      else Inl (Invalid_colors_count (int (length colors))))"

text \<open>
  Modelled from the spec: the bodies of \<^verbatim>\<open>find_palette\<close>, \<^verbatim>\<open>create_palette\<close> and
  \<^verbatim>\<open>create_palette_optional\<close>, which the header declares with their contract, and
  \<^verbatim>\<open>affine_bg_tiles_ptr\<close>, which \<^verbatim>\<open>find_tiles\<close>, \<^verbatim>\<open>create_tiles\<close> and
  \<^verbatim>\<open>create_tiles_optional\<close> hand the item to, are missing. They are the registry's find,
  create and create_optional on the content of the item: the colours, two bytes each, or
  the tiles, 32 bytes each.
\<close>

definition palette_descriptor :: "sprite_palette_item \<Rightarrow> color list content_descriptor" where
  "palette_descriptor item =
     \<lparr> descriptor_content = item_colors item,
       descriptor_length = 2 * length (item_colors item),
       descriptor_bpp = item_bpp_mode item \<rparr>"

definition find_palette ::
  "sprite_palette_item \<Rightarrow> color list registry \<Rightarrow> nat option \<times> color list registry" where
  "find_palette item reg = registry_find (palette_descriptor item) reg"

definition create_palette ::
  "sprite_palette_item \<Rightarrow> color list registry \<Rightarrow> error + (nat \<times> color list registry)" where
  "create_palette item reg = registry_create (palette_descriptor item) reg"

definition create_palette_optional ::
  "sprite_palette_item \<Rightarrow> color list registry \<Rightarrow> nat option \<times> color list registry" where
  "create_palette_optional item reg = registry_create_optional (palette_descriptor item) reg"

type_synonym tile = "32 word list"

datatype compression_type = NONE | LZ77 | RUN_LENGTH

record affine_bg_tiles_item =
  tiles_ref :: "tile list"
  compression :: compression_type

definition tiles_descriptor :: "affine_bg_tiles_item \<Rightarrow> tile list content_descriptor" where
  "tiles_descriptor item =
     \<lparr> descriptor_content = tiles_ref item,
       descriptor_length = 32 * length (tiles_ref item),
       descriptor_bpp = BPP_8 \<rparr>"

definition find_tiles ::
  "affine_bg_tiles_item \<Rightarrow> tile list registry \<Rightarrow> nat option \<times> tile list registry" where
  "find_tiles item reg = registry_find (tiles_descriptor item) reg"

definition create_tiles ::
  "affine_bg_tiles_item \<Rightarrow> tile list registry \<Rightarrow> error + (nat \<times> tile list registry)" where
  "create_tiles item reg = registry_create (tiles_descriptor item) reg"

definition create_tiles_optional ::
  "affine_bg_tiles_item \<Rightarrow> tile list registry \<Rightarrow> nat option \<times> tile list registry" where
  "create_tiles_optional item reg = registry_create_optional (tiles_descriptor item) reg"

section \<open>Example data\<close>

text \<open>Concrete managers, a palette, a colour table and an effect slot to run the model on.\<close>

definition example_managers :: "color list managers" where
  "example_managers =
     \<lparr> rect_window_hw_horizontal_boundaries = (\<lambda>target_id. (0, 240)),
       fill_rect_window_hblank_effect_horizontal_boundaries = (\<lambda>last_value input out. out),
       bgs_hw_id = (\<lambda>handle. None),
       bgs_map = (\<lambda>handle. \<lparr> map_dimensions = (32, 32), map_tiles_cbb = 0, map_bpp = BPP_4 \<rparr>),
       fill_hblank_effect_regular_attributes = (\<lambda>handle input out. out),
       window_horizontal_boundaries_register = (\<lambda>target_id. 64),
       bgs_attributes_register = (\<lambda>hw_id. 8),
       sprite_color_register = (\<lambda>target_id. 512 + 2 * nat target_id) \<rparr>"

definition example_palette :: sprite_palette_ptr where
  "example_palette = \<lparr> palette_id = 1, palette_colors_count = 16 \<rparr>"

definition example_colors_ref :: "color span" where
  "example_colors_ref = \<lparr> span_data = replicate 160 5, span_size = 160 \<rparr>"

definition example_slot :: "color list effect_slot" where
  "example_slot =
     \<lparr> slot_target_id = 19,
       slot_handler = color_handler example_managers,
       slot_visible = True,
       slot_last_value = Any_empty,
       slot_input_values = replicate 160 5,
       slot_output_register = 550,
       slot_dirty = False,
       slot_active_table = replicate 160 5,
       slot_inactive_table = replicate 160 0,
       slot_write_calls = 1 \<rparr>"

text \<open>
  A fixed point library on the scaled integers with 12 fractional bits, and hardware
  routines that change every colour they are given.
\<close>

definition example_fixed_lib :: "int fixed_lib" where
  "example_fixed_lib =
     \<lparr> fixed_ge = (\<lambda>x n. x \<ge> n * 4096),
       fixed_le = (\<lambda>x n. x \<le> n * 4096),
       fixed_t5_data = (\<lambda>x. x div 128),
       fixed_add = (\<lambda>x n. x + n * 4096),
       fixed_sub = (\<lambda>x n. x - n * 4096) \<rparr>"

definition example_hw_palettes :: hw_palettes where
  "example_hw_palettes =
     \<lparr> hw_colors = 256,
       hw_brightness = (\<lambda>source v n. map (\<lambda>c. c + 1) source),
       hw_contrast = (\<lambda>source v n. map (\<lambda>c. c + 1) source),
       hw_intensity = (\<lambda>source v n. map (\<lambda>c. c + 1) source),
       hw_grayscale = (\<lambda>source v n. map (\<lambda>c. c + 1) source),
       hw_hue_shift = (\<lambda>source v n. map (\<lambda>c. c + 1) source),
       hw_fade = (\<lambda>source fade_color v n. map (\<lambda>c. fade_color) source) \<rparr>"

text \<open>
  Sprite managers that can create two sprites and no more, and a generator with a fixed
  width font that prints one sprite per character.
\<close>

definition example_sprite_managers :: "(nat, int) sprite_managers" where
  "example_sprite_managers =
     \<lparr> ops_create_palette_optional = (\<lambda>item w. (Some example_palette, w)),
       ops_create_palette = (\<lambda>item w. Inr (example_palette, w)),
       ops_tiles_allocate_optional = (\<lambda>n bpp w. (Some 1, w)),
       ops_tiles_allocate = (\<lambda>n bpp w. Inr (1, w)),
       ops_tiles_create_optional = (\<lambda>item graphics_index w. (Some graphics_index, w)),
       ops_tiles_create = (\<lambda>item graphics_index w. Inr (graphics_index, w)),
       ops_tiles_vram_data = (\<lambda>tiles w. 64),
       ops_sprite_create_optional =
         (\<lambda>builder w. if w < 2 then (Some (100 + int w), Suc w) else (None, w)),
       ops_sprite_create =
         (\<lambda>builder w. if w < 2 then Inr (100 + int w, Suc w) else Inl Allocation_failed),
       ops_graphics_tiles_ref_data = (\<lambda>item graphics_index. Inr graphics_index),
       ops_copy_tiles = (\<lambda>source n destination w. w),
       ops_clear_tiles = (\<lambda>n destination w. w),
       ops_plot_tiles = (\<lambda>width source height y column destination w. w),
       ops_utf8_character = (\<lambda>text. Inl Invalid_utf8_character) \<rparr>"

definition example_generator :: sprite_text_generator where
  "example_generator =
     \<lparr> gen_font =
         \<lparr> font_item_shape = SQUARE, font_item_height = 8,
           font_tiles_item = \<lparr> tiles_ref_data = 1, graphics_count = 94 \<rparr>,
           font_character_widths_ref = [], font_space_between_characters = 0 \<rparr>,
       gen_palette_item = \<lparr> item_colors = replicate 16 0, item_bpp_mode = BPP_4 \<rparr>,
       gen_utf8_characters_map = (\<lambda>code. None),
       gen_alignment = LEFT,
       gen_bg_priority = 3,
       gen_z_order = 0,
       gen_one_sprite_per_character = True \<rparr>"

text \<open>
  An empty palette bank of 512 bytes, a palette item of 16 colours and one of 256, and
  the registry after the first item has been created in the empty bank.
\<close>

definition example_registry :: "color list registry" where
  "example_registry =
     \<lparr> reg_bank_id = 0,
       reg_pool = [\<lparr> block_start_offset = 0, block_length = 512, block_in_use = False \<rparr>],
       reg_handles = (\<lambda>i. None),
       reg_next_id = 0 \<rparr>"

definition example_item_a :: sprite_palette_item where
  "example_item_a = \<lparr> item_colors = replicate 16 31, item_bpp_mode = BPP_4 \<rparr>"

definition example_item_b :: sprite_palette_item where
  "example_item_b = \<lparr> item_colors = replicate 256 0, item_bpp_mode = BPP_8 \<rparr>"

definition example_registry_a :: "color list registry" where
  "example_registry_a =
     \<lparr> reg_bank_id = 0,
       reg_pool = [\<lparr> block_start_offset = 0, block_length = 32, block_in_use = True \<rparr>,
                   \<lparr> block_start_offset = 32, block_length = 480, block_in_use = False \<rparr>],
       reg_handles = (\<lambda>i. None)
         (0 \<mapsto> \<lparr> handle_content = replicate 16 31, handle_bank_id = 0,
                 handle_start_offset = 0, handle_length = 32, handle_bpp = BPP_4,
                 handle_reference_count = 1 \<rparr>),
       reg_next_id = 1 \<rparr>"

section \<open>Properties of the handlers\<close>

text \<open>
  C4. For every target and every cached pair, \<open>target_updated\<close> of the rect window
  horizontal boundaries handler returns true exactly when the window's current hardware
  horizontal boundaries differ from the cached pair, the cache afterwards holds the
  current boundaries, and a second call on the unchanged target returns false.
\<close>

theorem rw_target_updated_compares_and_caches:
  "rw_target_updated m target_id (Any_int_pair cached) =
     Inr (rect_window_hw_horizontal_boundaries m target_id \<noteq> cached,
          Any_int_pair (rect_window_hw_horizontal_boundaries m target_id))
   \<and> rw_target_updated m target_id
        (Any_int_pair (rect_window_hw_horizontal_boundaries m target_id)) =
     Inr (False, Any_int_pair (rect_window_hw_horizontal_boundaries m target_id))"
  by (auto simp: rw_target_updated_def value_int_pair_def Let_def)

text \<open>
  C5. \<open>target_visible\<close> of the regular background attributes handler is true exactly
  when the background has a hardware id; \<open>target_visible\<close> of the rect window boundaries
  handler is true for every target.
\<close>

theorem target_visible_handlers:
  "(bg_target_visible m target_id \<longleftrightarrow> (\<exists>hw_id. bgs_hw_id m target_id = Some hw_id))
   \<and> rw_target_visible other_target_id"
  by (simp add: bg_target_visible_def rw_target_visible_def)

text \<open>
  C6. \<open>write_output_values\<close> of the sprite palette colour handler writes one value per
  scanline: on tables of at least the display height it returns an output table whose
  first \<open>display_height\<close> entries are the input's and whose other entries are untouched;
  the span \<open>colors_ref\<close> exposes has the display height as its size, which is 160.
\<close>

theorem color_write_output_values_copies_lines:
  "(display_height \<le> length input_values \<and> display_height \<le> length output_values \<longrightarrow>
      (\<exists>out. color_write_output_values target_id last_value input_values output_values = Inr out
         \<and> length out = length output_values
         \<and> (\<forall>i<display_height. out ! i = input_values ! i)
         \<and> (\<forall>i. display_height \<le> i \<and> i < length output_values \<longrightarrow>
               out ! i = output_values ! i)))
   \<and> (sprite_palette_color_hblank_effect_ptr_colors_ref p mgr = Inr sp \<longrightarrow>
        span_size sp = int display_height)
   \<and> display_height = 160"
  by (auto simp: color_write_output_values_def memory_copy_def nth_append
      sprite_palette_color_hblank_effect_ptr_colors_ref_def display_height_def
      split: sum.splits)

theorem color_write_output_values_copies_lines_witness:
  "display_height \<le> length (replicate 160 (5 :: color))
   \<and> display_height \<le> length (replicate 160 (0 :: 16 word))
   \<and> color_write_output_values 19 Any_empty (replicate 160 5) (replicate 160 0)
        = Inr (replicate 160 5)
   \<and> sprite_palette_color_hblank_effect_ptr_colors_ref
        \<lparr> hbe_id = 0, hbe_palette = example_palette, hbe_color_index = 3 \<rparr>
        [Some example_slot] = Inr \<lparr> span_data = replicate 160 5, span_size = 160 \<rparr>"
  using color_write_output_values_copies_lines
          [of "replicate 160 5" "replicate 160 0" 19 Any_empty
              "\<lparr> hbe_id = 0, hbe_palette = example_palette, hbe_color_index = 3 \<rparr>"
              "[Some example_slot]" "\<lparr> span_data = replicate 160 5, span_size = 160 \<rparr>"]
  by (simp add: display_height_def color_write_output_values_def memory_copy_def
      sprite_palette_color_hblank_effect_ptr_colors_ref_def
      hblank_effects_manager_values_ref_def get_slot_def example_slot_def)


text \<open>
  C7. \<open>create\<close> and \<open>optional_create\<close> stop on the colour index assertion exactly when
  the index is negative or not below the palette's colours count; on an index in range
  the assertion is not raised.
\<close>

theorem create_asserts_color_index:
  "((\<exists>a b. sprite_palette_color_hblank_effect_ptr_create m palette color_index cr mgr
             = Inl (Invalid_color_index a b))
      \<longleftrightarrow> (color_index < 0 \<or> color_index \<ge> palette_colors_count palette))
   \<and> ((\<exists>a b. sprite_palette_color_hblank_effect_ptr_optional_create m palette color_index cr mgr
             = Inl (Invalid_color_index a b))
      \<longleftrightarrow> (color_index < 0 \<or> color_index \<ge> palette_colors_count palette))"
  by (auto simp: sprite_palette_color_hblank_effect_ptr_create_def
      sprite_palette_color_hblank_effect_ptr_optional_create_def
      hblank_effects_manager_create_def hblank_effects_manager_optional_create_def Let_def
      color_handler_def
      split: option.splits sum.splits if_splits)


section \<open>Properties of the effects manager\<close>

lemma find_free_slot_None: "find_free_slot mgr = None \<longleftrightarrow> None \<notin> set mgr"
  by (induction mgr rule: find_free_slot.induct) auto

lemma find_free_slot_Some:
  "find_free_slot mgr = Some i \<Longrightarrow> i < length mgr \<and> mgr ! i = None"
  by (induction mgr arbitrary: i rule: find_free_slot.induct) auto

text \<open>
  C2. With every effect slot in use and a colour index in range, \<open>optional_create\<close>
  returns the empty optional and leaves the manager as it was, while \<open>create\<close> stops on
  the fatal assertion of the manager. A result of \<open>optional_create\<close> or \<open>create\<close> carries
  a non-negative id, of a slot that was free before and is in use afterwards.
\<close>

theorem optional_create_reports_exhaustion:
  "(None \<notin> set mgr \<and> 0 \<le> color_index \<and> color_index < palette_colors_count palette \<longrightarrow>
      sprite_palette_color_hblank_effect_ptr_optional_create m palette color_index cr mgr
        = Inr (None, mgr)
      \<and> sprite_palette_color_hblank_effect_ptr_create m palette color_index cr mgr
        = Inl Effect_slots_exhausted)
   \<and> (sprite_palette_color_hblank_effect_ptr_optional_create m palette color_index cr mgr
        = Inr (Some p, mgr') \<longrightarrow>
      0 \<le> hbe_id p \<and> get_slot mgr (hbe_id p) = None \<and> get_slot mgr' (hbe_id p) \<noteq> None)
   \<and> (sprite_palette_color_hblank_effect_ptr_create m palette color_index cr mgr
        = Inr (q, mgr'') \<longrightarrow>
      0 \<le> hbe_id q \<and> get_slot mgr (hbe_id q) = None \<and> get_slot mgr'' (hbe_id q) \<noteq> None)"
proof (intro conjI impI)
  assume a: "None \<notin> set mgr \<and> 0 \<le> color_index \<and> color_index < palette_colors_count palette"
  then have f: "find_free_slot mgr = None" by (simp add: find_free_slot_None)
  from a f show "sprite_palette_color_hblank_effect_ptr_optional_create m palette color_index cr mgr
        = Inr (None, mgr)"
    by (simp add: sprite_palette_color_hblank_effect_ptr_optional_create_def
        hblank_effects_manager_optional_create_def)
  from a f show "sprite_palette_color_hblank_effect_ptr_create m palette color_index cr mgr
        = Inl Effect_slots_exhausted"
    by (simp add: sprite_palette_color_hblank_effect_ptr_create_def
        hblank_effects_manager_create_def)
next
  assume a: "sprite_palette_color_hblank_effect_ptr_optional_create m palette color_index cr mgr
        = Inr (Some p, mgr')"
  then obtain i where i: "find_free_slot mgr = Some i" "hbe_id p = int i"
     "mgr' = mgr[i := Some (new_effect_slot (span_data cr) (palette_id palette * 16 + color_index)
                 (color_handler m) (color_output_register m (palette_id palette * 16 + color_index)))]"
    by (auto simp: sprite_palette_color_hblank_effect_ptr_optional_create_def
        hblank_effects_manager_optional_create_def Let_def color_handler_def
        new_sprite_palette_color_hblank_effect_ptr_def
        split: if_splits option.splits sum.splits)
  from find_free_slot_Some [OF i(1)] i(2,3)
  show "0 \<le> hbe_id p" "get_slot mgr (hbe_id p) = None" "get_slot mgr' (hbe_id p) \<noteq> None"
    by (simp_all add: get_slot_def)
next
  assume a: "sprite_palette_color_hblank_effect_ptr_create m palette color_index cr mgr
        = Inr (q, mgr'')"
  then obtain i where i: "find_free_slot mgr = Some i" "hbe_id q = int i"
     "mgr'' = mgr[i := Some (new_effect_slot (span_data cr) (palette_id palette * 16 + color_index)
                 (color_handler m) (color_output_register m (palette_id palette * 16 + color_index)))]"
    by (auto simp: sprite_palette_color_hblank_effect_ptr_create_def
        hblank_effects_manager_create_def Let_def color_handler_def
        new_sprite_palette_color_hblank_effect_ptr_def
        split: if_splits option.splits sum.splits)
  from find_free_slot_Some [OF i(1)] i(2,3)
  show "0 \<le> hbe_id q" "get_slot mgr (hbe_id q) = None" "get_slot mgr'' (hbe_id q) \<noteq> None"
    by (simp_all add: get_slot_def)
qed

theorem optional_create_reports_exhaustion_witness:
  "None \<notin> set [Some example_slot]
   \<and> sprite_palette_color_hblank_effect_ptr_optional_create example_managers example_palette 3
        example_colors_ref [Some example_slot] = Inr (None, [Some example_slot])
   \<and> sprite_palette_color_hblank_effect_ptr_create example_managers example_palette 3
        example_colors_ref [Some example_slot] = Inl Effect_slots_exhausted
   \<and> (\<exists>p mgr'. sprite_palette_color_hblank_effect_ptr_optional_create example_managers
                  example_palette 3 example_colors_ref [None] = Inr (Some p, mgr')
               \<and> 0 \<le> hbe_id p)
   \<and> (\<exists>q mgr'. sprite_palette_color_hblank_effect_ptr_create example_managers
                  example_palette 3 example_colors_ref [None] = Inr (q, mgr')
               \<and> 0 \<le> hbe_id q)"
  using optional_create_reports_exhaustion
          [of "[Some example_slot]" 3 example_palette example_managers example_colors_ref]
        optional_create_reports_exhaustion
          [of "[None]" 3 example_palette example_managers example_colors_ref]
  by (simp add: example_palette_def sprite_palette_color_hblank_effect_ptr_optional_create_def
      sprite_palette_color_hblank_effect_ptr_create_def hblank_effects_manager_create_def
      hblank_effects_manager_optional_create_def color_handler_def)

lemma update_slots_pointwise:
  "hblank_effects_manager_update mgr = Inr mgr' \<Longrightarrow>
   length mgr' = length mgr \<and>
   (\<forall>i<length mgr. case mgr ! i of
        None \<Rightarrow> mgr' ! i = None
      | Some s \<Rightarrow> (\<exists>s'. update_slot s = Inr s' \<and> mgr' ! i = Some s'))"
proof (induction mgr arbitrary: mgr')
  case Nil
  then show ?case by simp
next
  case (Cons a slots)
  show ?case
  proof (cases a)
    case None
    with Cons.prems obtain slots' where
      u: "hblank_effects_manager_update slots = Inr slots'" "mgr' = None # slots'"
      by (auto split: sum.splits)
    from Cons.IH [OF u(1)] u(2) None show ?thesis
      by (auto simp: All_less_Suc2 split: option.splits)
  next
    case (Some s)
    with Cons.prems obtain s' slots' where
      u: "update_slot s = Inr s'" "hblank_effects_manager_update slots = Inr slots'"
         "mgr' = Some s' # slots'"
      by (auto split: sum.splits)
    from Cons.IH [OF u(2)] u(1,3) Some show ?thesis
      by (auto simp: All_less_Suc2 split: option.splits)
  qed
qed

lemma update_slot_not_dirty:
  "update_slot s = Inr s' \<Longrightarrow> \<not> slot_dirty s \<Longrightarrow>
   target_updated (slot_handler s) (slot_target_id s) (slot_last_value s) = Inr (False, lv) \<Longrightarrow>
   slot_write_calls s' = slot_write_calls s \<and> slot_active_table s' = slot_active_table s
   \<and> slot_inactive_table s' = slot_inactive_table s"
  by (auto simp: update_slot_def split: if_splits)

lemma update_slot_color:
  "update_slot s = Inr s' \<Longrightarrow> slot_handler s = color_handler m \<Longrightarrow>
   slot_write_calls s' =
     (if slot_visible s \<and> slot_dirty s then Suc (slot_write_calls s) else slot_write_calls s)"
  by (auto simp: update_slot_def color_handler_def color_target_updated_def
      color_target_visible_def split: if_splits sum.splits)

lemma update_get_slot:
  "hblank_effects_manager_update mgr = Inr mgr' \<Longrightarrow> get_slot mgr i = Some s \<Longrightarrow>
   \<exists>s'. update_slot s = Inr s' \<and> get_slot mgr' i = Some s'"
proof -
  assume u: "hblank_effects_manager_update mgr = Inr mgr'" and g: "get_slot mgr i = Some s"
  from g have i: "0 \<le> i" "nat i < length mgr" "mgr ! nat i = Some s"
    by (auto simp: get_slot_def split: if_splits)
  from update_slots_pointwise [OF u] i show ?thesis
    by (fastforce simp: get_slot_def split: option.splits)
qed

lemma update_slot_clears_dirty:
  "update_slot s = Inr s' \<Longrightarrow> slot_visible s \<Longrightarrow>
   target_visible (slot_handler s) (slot_target_id s) \<Longrightarrow> \<not> slot_dirty s'"
  by (auto simp: update_slot_def split: if_splits sum.splits)

lemma update_keeps_clean_slot:
  "hblank_effects_manager_update mgr = Inr mgr' \<Longrightarrow> get_slot mgr i = Some s \<Longrightarrow>
   target_updated (slot_handler s) (slot_target_id s) (slot_last_value s) = Inr (False, lv) \<Longrightarrow>
   \<not> slot_dirty s \<Longrightarrow>
   \<exists>s'. get_slot mgr' i = Some s' \<and> slot_write_calls s' = slot_write_calls s
        \<and> slot_active_table s' = slot_active_table s"
proof -
  assume a: "hblank_effects_manager_update mgr = Inr mgr'" "get_slot mgr i = Some s"
    "target_updated (slot_handler s) (slot_target_id s) (slot_last_value s) = Inr (False, lv)"
    "\<not> slot_dirty s"
  from update_get_slot [OF a(1,2)] obtain s' where
    s': "update_slot s = Inr s'" "get_slot mgr' i = Some s'" by blast
  from update_slot_not_dirty [OF s'(1) a(4,3)] s'(2) show ?thesis by simp
qed

text \<open>
  C3. In a frame, a slot whose \<open>target_updated\<close> reports no change and whose dirty flag
  is clear gets no call of \<open>write_output_values\<close>, and its active line table stays. The
  dirty flag is the pending reload notification: it is clear after every frame that
  processed the slot, so in the next frame, with no reload notification in between and
  \<open>target_updated\<close> reporting no change, the slot is not recomputed. \<open>target_updated\<close> of
  the colour handler is false for every target and keeps the cached value, so a slot of
  the colour handler is recomputed in a frame exactly when it is shown and its dirty flag
  is set.
\<close>

theorem unchanged_slot_is_not_recomputed:
  "(hblank_effects_manager_update mgr = Inr mgr' \<and> get_slot mgr i = Some s
      \<and> target_updated (slot_handler s) (slot_target_id s) (slot_last_value s) = Inr (False, lv)
      \<and> \<not> slot_dirty s \<longrightarrow>
      (\<exists>s'. get_slot mgr' i = Some s' \<and> slot_write_calls s' = slot_write_calls s
            \<and> slot_active_table s' = slot_active_table s))
   \<and> (hblank_effects_manager_update mgr0 = Inr mgr1 \<and> get_slot mgr0 k = Some s0
      \<and> slot_visible s0 \<and> target_visible (slot_handler s0) (slot_target_id s0)
      \<and> hblank_effects_manager_update mgr1 = Inr mgr2 \<and> get_slot mgr1 k = Some s1
      \<and> target_updated (slot_handler s1) (slot_target_id s1) (slot_last_value s1)
          = Inr (False, lv1) \<longrightarrow>
      (\<exists>s2. get_slot mgr2 k = Some s2 \<and> slot_write_calls s2 = slot_write_calls s1
            \<and> slot_active_table s2 = slot_active_table s1))
   \<and> color_target_updated target_id last_value = Inr (False, last_value)
   \<and> (hblank_effects_manager_update cmgr = Inr cmgr' \<and> get_slot cmgr j = Some c
      \<and> slot_handler c = color_handler m \<longrightarrow>
      (\<exists>c'. get_slot cmgr' j = Some c'
            \<and> slot_write_calls c' =
                (if slot_visible c \<and> slot_dirty c then Suc (slot_write_calls c)
                 else slot_write_calls c)))"
proof -
  have two: "\<exists>s2. get_slot mgr2 k = Some s2 \<and> slot_write_calls s2 = slot_write_calls s1
            \<and> slot_active_table s2 = slot_active_table s1"
    if "hblank_effects_manager_update mgr0 = Inr mgr1" "get_slot mgr0 k = Some s0"
       "slot_visible s0" "target_visible (slot_handler s0) (slot_target_id s0)"
       "hblank_effects_manager_update mgr1 = Inr mgr2" "get_slot mgr1 k = Some s1"
       "target_updated (slot_handler s1) (slot_target_id s1) (slot_last_value s1)
          = Inr (False, lv1)"
  proof -
    from update_get_slot [OF that(1,2)] that(6) have "update_slot s0 = Inr s1" by auto
    from update_slot_clears_dirty [OF this that(3,4)] have "\<not> slot_dirty s1" .
    from update_keeps_clean_slot [OF that(5,6,7) this] show ?thesis .
  qed
  have three: "color_target_updated target_id last_value = Inr (False, last_value)"
    by (simp add: color_target_updated_def)
  have four: "\<exists>c'. get_slot cmgr' j = Some c'
            \<and> slot_write_calls c' =
                (if slot_visible c \<and> slot_dirty c then Suc (slot_write_calls c)
                 else slot_write_calls c)"
    if "hblank_effects_manager_update cmgr = Inr cmgr'" "get_slot cmgr j = Some c"
       "slot_handler c = color_handler m"
  proof -
    from update_get_slot [OF that(1,2)] obtain c' where
      c': "update_slot c = Inr c'" "get_slot cmgr' j = Some c'" by blast
    from update_slot_color [OF c'(1) that(3)] c'(2) show ?thesis by simp
  qed
  from update_keeps_clean_slot [of mgr mgr' i s lv] two three four show ?thesis by blast
qed

theorem unchanged_slot_is_not_recomputed_witness:
  "sprite_palette_color_hblank_effect_ptr_create example_managers example_palette 3
       example_colors_ref [None] =
     Inr (\<lparr> hbe_id = 0, hbe_palette = example_palette, hbe_color_index = 3 \<rparr>,
          [Some (example_slot\<lparr> slot_dirty := True, slot_active_table := replicate 160 0,
                   slot_write_calls := 0 \<rparr>)])
   \<and> hblank_effects_manager_update
         [Some (example_slot\<lparr> slot_dirty := True, slot_active_table := replicate 160 0,
                  slot_write_calls := 0 \<rparr>)] = Inr [Some example_slot]
   \<and> hblank_effects_manager_update [Some example_slot] = Inr [Some example_slot]
   \<and> get_slot [Some example_slot] 0 = Some example_slot
   \<and> target_updated (slot_handler example_slot) (slot_target_id example_slot)
        (slot_last_value example_slot) = Inr (False, Any_empty)
   \<and> \<not> slot_dirty example_slot
   \<and> slot_handler example_slot = color_handler example_managers
   \<and> (\<exists>s'. get_slot [Some example_slot] 0 = Some s' \<and> slot_write_calls s' = 1)"
  using unchanged_slot_is_not_recomputed
          [where mgr = "[Some example_slot]" and mgr' = "[Some example_slot]" and i = 0
             and s = example_slot and lv = Any_empty
             and ?mgr0.0 = "[Some (example_slot\<lparr> slot_dirty := True,
                                     slot_active_table := replicate 160 0,
                                     slot_write_calls := 0 \<rparr>)]"
             and k = 0
             and ?s0.0 = "example_slot\<lparr> slot_dirty := True,
                            slot_active_table := replicate 160 0, slot_write_calls := 0 \<rparr>"
             and ?mgr1.0 = "[Some example_slot]" and ?mgr2.0 = "[Some example_slot]"
             and ?s1.0 = example_slot and ?lv1.0 = Any_empty
             and target_id = 0 and last_value = Any_empty
             and cmgr = "[Some example_slot]" and cmgr' = "[Some example_slot]" and j = 0
             and c = example_slot and m = example_managers]
  by (simp add: update_slot_def example_slot_def color_handler_def color_target_visible_def
      color_target_updated_def get_slot_def sprite_palette_color_hblank_effect_ptr_create_def
      example_palette_def hblank_effects_manager_create_def example_colors_ref_def
      new_effect_slot_def color_output_register_def example_managers_def
      new_sprite_palette_color_hblank_effect_ptr_def color_setup_target_def display_height_def
      color_write_output_values_def memory_copy_def)


section \<open>Properties of the colour effects\<close>

text \<open>
  C9. On a non-empty span, \<open>brightness\<close>, \<open>contrast\<close>, \<open>intensity\<close>, \<open>fade\<close>,
  \<open>grayscale\<close> and \<open>hue_shift\<close> with an intensity whose representation with 5
  fractional bits is zero leave every colour of the span as it was. When the intensity
  also passes the range assertion (and, for \<open>grayscale\<close> and \<open>hue_shift\<close>, the span is
  not longer than the palette memory) the call ends without a failed assertion.
\<close>

theorem zero_intensity_is_identity:
  "(colors_ref \<noteq> [] \<and> fixed_t5_data lib x = 0 \<longrightarrow>
      snd (brightness lib hw x colors_ref) = colors_ref
      \<and> snd (contrast lib hw x colors_ref) = colors_ref
      \<and> snd (intensity lib hw x colors_ref) = colors_ref
      \<and> snd (fade lib hw fade_color x colors_ref) = colors_ref
      \<and> snd (grayscale lib hw x colors_ref) = colors_ref
      \<and> snd (hue_shift lib hw x colors_ref) = colors_ref)
   \<and> (colors_ref \<noteq> [] \<and> fixed_ge lib x 0 \<and> fixed_le lib x 1 \<longrightarrow>
      fst (brightness lib hw x colors_ref) = None
      \<and> fst (contrast lib hw x colors_ref) = None
      \<and> fst (intensity lib hw x colors_ref) = None
      \<and> fst (fade lib hw fade_color x colors_ref) = None
      \<and> (int (length colors_ref) \<le> hw_colors hw \<longrightarrow>
           fst (grayscale lib hw x colors_ref) = None
           \<and> fst (hue_shift lib hw x colors_ref) = None))"
  by (simp add: brightness_def contrast_def intensity_def fade_def grayscale_def hue_shift_def
      Let_def)

theorem zero_intensity_is_identity_witness:
  "[1, 2, 3] \<noteq> ([] :: color list) \<and> fixed_t5_data example_fixed_lib 100 = 0
   \<and> fixed_ge example_fixed_lib 100 0 \<and> fixed_le example_fixed_lib 100 1
   \<and> int (length [1, 2, 3 :: color]) \<le> hw_colors example_hw_palettes
   \<and> brightness example_fixed_lib example_hw_palettes 100 [1, 2, 3] = (None, [1, 2, 3])
   \<and> fade example_fixed_lib example_hw_palettes 31 100 [1, 2, 3] = (None, [1, 2, 3])
   \<and> grayscale example_fixed_lib example_hw_palettes 100 [1, 2, 3] = (None, [1, 2, 3])
   \<and> brightness example_fixed_lib example_hw_palettes 128 [1, 2, 3] = (None, [2, 3, 4])"
  using zero_intensity_is_identity
          [of "[1, 2, 3]" example_fixed_lib 100 example_hw_palettes 31]
  by (simp add: example_fixed_lib_def example_hw_palettes_def brightness_def fade_def
      grayscale_def prod_eq_iff)


section \<open>Properties of the sprite text generator\<close>

lemma extends_refl: "extends v v"
  unfolding extends_def by (rule exI [of _ "[]"]) simp

lemma extends_trans: "extends a b \<Longrightarrow> extends b c \<Longrightarrow> extends a c"
  unfolding extends_def by (elim exE, rule_tac x = "ys @ ysa" in exI) simp

lemma vec_push_back_extends: "vec_push_back x v = Inr v' \<Longrightarrow> extends v v'"
  unfolding extends_def vec_push_back_def by (auto split: if_splits)

lemma vec_shrink_extends: "extends v v' \<Longrightarrow> vec_shrink (vec_size v) v' = Inr v"
  unfolding extends_def vec_shrink_def vec_size_def by auto

lemma advance_x_output [simp]: "pt_output_sprites (advance_x lib n pt) = pt_output_sprites pt"
  by (simp add: advance_x_def)

lemma build_sprite_extends:
  "build_sprite ops sz n af generator palette pos out w = Inr (tv, out', w') \<Longrightarrow> extends out out'"
  unfolding build_sprite_def
  by (auto simp: Let_def extends_refl split: if_splits sum.splits option.splits prod.splits
      dest: vec_push_back_extends)

lemma create_character_sprite_extends:
  "create_character_sprite ops af generator g pt = Inr (b, pt') \<Longrightarrow>
   extends (pt_output_sprites pt) (pt_output_sprites pt')"
  unfolding create_character_sprite_def
  by (auto simp: Let_def extends_refl split: if_splits sum.splits option.splits prod.splits
      dest: vec_push_back_extends)


lemma fixed_clear_output [simp]:
  "pt_output_sprites (fixed_clear ops rows n pt) = pt_output_sprites pt"
  by (simp add: fixed_clear_def Let_def)

lemma fixed_clear_left_output [simp]:
  "pt_output_sprites (fixed_clear_left ops rows pt) = pt_output_sprites pt"
  by (simp add: fixed_clear_left_def)

lemma fixed_one_sprite_paint_space_output:
  "fixed_one_sprite_paint_space lib generator pt = Inr pt' \<Longrightarrow>
   extends (pt_output_sprites pt) (pt_output_sprites pt')"
  by (auto simp: fixed_one_sprite_paint_space_def extends_refl)

lemma fixed_one_sprite_paint_tab_output:
  "fixed_one_sprite_paint_tab lib generator pt = Inr pt' \<Longrightarrow>
   extends (pt_output_sprites pt) (pt_output_sprites pt')"
  by (auto simp: fixed_one_sprite_paint_tab_def extends_refl)

lemma fixed_one_sprite_paint_character_output:
  "fixed_one_sprite_paint_character ops lib af generator g pt = Inr (b, pt') \<Longrightarrow>
   extends (pt_output_sprites pt) (pt_output_sprites pt')"
  unfolding fixed_one_sprite_paint_character_def
  by (auto split: sum.splits prod.splits bool.splits dest: create_character_sprite_extends)

lemma variable_one_sprite_paint_space_output:
  "variable_one_sprite_paint_space lib generator pt = Inr pt' \<Longrightarrow>
   extends (pt_output_sprites pt) (pt_output_sprites pt')"
  by (auto simp: variable_one_sprite_paint_space_def extends_refl split: sum.splits)

lemma variable_one_sprite_paint_tab_output:
  "variable_one_sprite_paint_tab lib generator pt = Inr pt' \<Longrightarrow>
   extends (pt_output_sprites pt) (pt_output_sprites pt')"
  by (auto simp: variable_one_sprite_paint_tab_def extends_refl split: sum.splits)

lemma variable_one_sprite_paint_character_output:
  "variable_one_sprite_paint_character ops lib af generator g pt = Inr (b, pt') \<Longrightarrow>
   extends (pt_output_sprites pt) (pt_output_sprites pt')"
  unfolding variable_one_sprite_paint_character_def
  by (auto simp: extends_refl split: sum.splits prod.splits bool.splits if_splits
      dest: create_character_sprite_extends)

lemma fixed_paint_space_output:
  "fixed_paint_space ops lib rows generator pt = Inr pt' \<Longrightarrow>
   extends (pt_output_sprites pt) (pt_output_sprites pt')"
  by (auto simp: fixed_paint_space_def Let_def extends_refl split: if_splits)

lemma fixed_paint_tab_output:
  "fixed_paint_tab ops lib rows generator pt = Inr pt' \<Longrightarrow>
   extends (pt_output_sprites pt) (pt_output_sprites pt')"
  by (auto simp: fixed_paint_tab_def extends_refl)

lemma fixed_paint_character_output:
  "fixed_paint_character ops lib rows af generator g pt = Inr (b, pt') \<Longrightarrow>
   extends (pt_output_sprites pt) (pt_output_sprites pt')"
  unfolding fixed_paint_character_def
  by (auto simp: Let_def extends_refl split: sum.splits prod.splits bool.splits if_splits
      dest: build_sprite_extends)

lemma variable_paint_space_output:
  "variable_paint_space lib generator pt = Inr pt' \<Longrightarrow>
   extends (pt_output_sprites pt) (pt_output_sprites pt')"
  by (auto simp: variable_paint_space_def Let_def extends_refl split: sum.splits)

lemma variable_paint_tab_output:
  "variable_paint_tab lib generator pt = Inr pt' \<Longrightarrow>
   extends (pt_output_sprites pt) (pt_output_sprites pt')"
  by (auto simp: variable_paint_tab_def Let_def extends_refl split: sum.splits)

lemma variable_paint_character_output:
  "variable_paint_character ops lib h af generator g pt = Inr (b, pt') \<Longrightarrow>
   extends (pt_output_sprites pt) (pt_output_sprites pt')"
  unfolding variable_paint_character_def
  by (auto simp: Let_def extends_refl split: sum.splits prod.splits bool.splits if_splits
      dest: build_sprite_extends)

lemma paint_extends:
  assumes sp: "\<And>p p'. ps p = Inr p' \<Longrightarrow> extends (out p) (out p')"
    and tb: "\<And>p p'. pt p = Inr p' \<Longrightarrow> extends (out p) (out p')"
    and ch: "\<And>g p b p'. pc g p = Inr (b, p') \<Longrightarrow> extends (out p) (out p')"
  shows "paint fuel af utf8 ps pt pc text m i p = Some (Inr (b, p')) \<Longrightarrow>
         extends (out p) (out p')"
proof (induction fuel arbitrary: i p)
  case 0
  then show ?case by simp
next
  case (Suc fuel)
  show ?case
  proof (cases "i < length text")
    case False
    with Suc.prems show ?thesis by (simp add: extends_refl)
  next
    case True
    note lt = this
    consider (space) "text ! i = 0x20" | (tab) "text ! i \<noteq> 0x20" "text ! i = 0x09"
      | (char) "text ! i \<noteq> 0x20" "text ! i \<noteq> 0x09" "text ! i \<ge> 0x21"
      | (bad) "text ! i \<noteq> 0x20" "text ! i \<noteq> 0x09" "\<not> text ! i \<ge> 0x21"
      by blast
    then show ?thesis
    proof cases
      case space
      with Suc.prems lt obtain p1 where
        p1: "ps p = Inr p1" "paint fuel af utf8 ps pt pc text m (i + 1) p1 = Some (Inr (b, p'))"
        by (auto simp: Let_def split: sum.splits)
      from sp [OF p1(1)] Suc.IH [OF p1(2)] show ?thesis by (rule extends_trans)
    next
      case tab
      with Suc.prems lt obtain p1 where
        p1: "pt p = Inr p1" "paint fuel af utf8 ps pt pc text m (i + 1) p1 = Some (Inr (b, p'))"
        by (auto simp: Let_def split: sum.splits)
      from tb [OF p1(1)] Suc.IH [OF p1(2)] show ?thesis by (rule extends_trans)
    next
      case char
      with Suc.prems lt obtain g i' s p1 where
        p1: "pc g p = Inr (s, p1)"
            "(af \<and> \<not> s \<and> b = False \<and> p' = p1)
             \<or> paint fuel af utf8 ps pt pc text m i' p1 = Some (Inr (b, p'))"
        by (auto simp: Let_def split: sum.splits prod.splits if_splits option.splits)
      from p1(2) show ?thesis
      proof
        assume "af \<and> \<not> s \<and> b = False \<and> p' = p1"
        with ch [OF p1(1)] show ?thesis by simp
      next
        assume "paint fuel af utf8 ps pt pc text m i' p1 = Some (Inr (b, p'))"
        from ch [OF p1(1)] Suc.IH [OF this] show ?thesis by (rule extends_trans)
      qed
    next
      case bad
      with Suc.prems lt show ?thesis by (simp add: Let_def)
    qed
  qed
qed


lemma new_painter_output [simp]:
  "pt_output_sprites (new_painter palette pos out w) = out"
  by (simp add: new_painter_def)

lemma paint_fixed_one_sprite_extends:
  "paint fuel af utf8 (fixed_one_sprite_paint_space lib generator)
     (fixed_one_sprite_paint_tab lib generator)
     (fixed_one_sprite_paint_character ops lib af' generator) text m i p = Some (Inr (b, p'))
   \<Longrightarrow> extends (pt_output_sprites p) (pt_output_sprites p')"
  by (erule paint_extends [rotated 3])
     (erule fixed_one_sprite_paint_space_output fixed_one_sprite_paint_tab_output
        fixed_one_sprite_paint_character_output)+

lemma paint_variable_one_sprite_extends:
  "paint fuel af utf8 (variable_one_sprite_paint_space lib generator)
     (variable_one_sprite_paint_tab lib generator)
     (variable_one_sprite_paint_character ops lib af' generator) text m i p = Some (Inr (b, p'))
   \<Longrightarrow> extends (pt_output_sprites p) (pt_output_sprites p')"
  by (erule paint_extends [rotated 3])
     (erule variable_one_sprite_paint_space_output variable_one_sprite_paint_tab_output
        variable_one_sprite_paint_character_output)+

lemma paint_fixed_extends:
  "paint fuel af utf8 (fixed_paint_space ops lib rows generator)
     (fixed_paint_tab ops lib rows generator)
     (fixed_paint_character ops lib rows af' generator) text m i p = Some (Inr (b, p'))
   \<Longrightarrow> extends (pt_output_sprites p) (pt_output_sprites p')"
  by (erule paint_extends [rotated 3])
     (erule fixed_paint_space_output fixed_paint_tab_output fixed_paint_character_output)+

lemma paint_variable_extends:
  "paint fuel af utf8 (variable_paint_space lib generator)
     (variable_paint_tab lib generator)
     (variable_paint_character ops lib h af' generator) text m i p = Some (Inr (b, p'))
   \<Longrightarrow> extends (pt_output_sprites p) (pt_output_sprites p')"
  by (erule paint_extends [rotated 3])
     (erule variable_paint_space_output variable_paint_tab_output
        variable_paint_character_output)+

text \<open>
  When \<^verbatim>\<open>utf8_character\<close> never answers the size 0, the loop ends: more fuel than the
  characters left to read is enough for \<open>paint\<close> to return.
\<close>

lemma paint_enough_fuel:
  assumes sz: "\<And>t d n. utf8 t = Inr (d, n) \<Longrightarrow> 0 < n"
  shows "length text - i < fuel \<Longrightarrow>
         paint fuel af utf8 ps pt pc text m i p \<noteq> None"
proof (induction fuel arbitrary: i p)
  case 0
  then show ?case by simp
next
  case (Suc fuel)
  show ?case
  proof (cases "i < length text")
    case False
    then show ?thesis by simp
  next
    case True
    with Suc.prems have le: "\<And>n. 0 < n \<Longrightarrow> length text - (i + n) < fuel" by arith
    from True le [of 1] Suc.IH [of "i + 1"] sz le Suc.IH
    show ?thesis
      by (auto simp: Let_def split: sum.splits prod.splits option.splits)
  qed
qed

text \<open>
  C10. Whenever \<open>generate_optional\<close> returns false, the vector \<open>output_sprites\<close> is
  the one it was on entry: every sprite appended during the failed attempt has been
  removed, and the capacity and the earlier elements are untouched.
\<close>

theorem failed_generation_restores_output_sprites:
  "generate_optional fuel ops lib generator position text output_sprites w
     = Some (Inr (False, output_sprites', w')) \<Longrightarrow>
   output_sprites' = output_sprites"
  unfolding generate_optional_def generate_template_def
  by (auto simp: Let_def split: if_splits sum.splits option.splits prod.splits
        alignment_type.splits
      dest!: paint_fixed_one_sprite_extends paint_variable_one_sprite_extends
        paint_fixed_extends paint_variable_extends
      dest: vec_shrink_extends)

theorem failed_generation_restores_output_sprites_witness:
  "generate_optional 10 example_sprite_managers example_fixed_lib example_generator (0, 0)
          [0x61, 0x62, 0x63] \<lparr> vec_data = [7], vec_max_size = 8 \<rparr> 0
   = Some (Inr (False, \<lparr> vec_data = [7], vec_max_size = 8 \<rparr>, 2))
  \<and> generate_optional 10 example_sprite_managers example_fixed_lib example_generator (0, 0)
          [0x61, 0x20, 0x63] \<lparr> vec_data = [7], vec_max_size = 8 \<rparr> 0
   = Some (Inr (True, \<lparr> vec_data = [7, 100, 101], vec_max_size = 8 \<rparr>, 2))"
  using failed_generation_restores_output_sprites
          [of 10 example_sprite_managers example_fixed_lib example_generator "(0, 0)"
              "[0x61, 0x62, 0x63]" "\<lparr> vec_data = [7], vec_max_size = 8 \<rparr>" 0
              "\<lparr> vec_data = [7], vec_max_size = 8 \<rparr>" 2]
  by code_simp


section \<open>Properties of the registry\<close>

lemma find_append_cases:
  "List.find P (xs @ ys) = (case List.find P xs of None \<Rightarrow> List.find P ys | Some x \<Rightarrow> Some x)"
  by (induction xs) auto

lemma find_holds: "List.find P xs = Some x \<Longrightarrow> P x \<and> x \<in> set xs"
  by (induction xs) (auto split: if_splits)

lemma find_upt_last:
  "(\<forall>i<n. \<not> P i) \<Longrightarrow> P n \<Longrightarrow> List.find P [0..<Suc n] = Some n"
  by (auto simp: find_append_cases split: option.splits dest: find_holds)

lemma allocate_relocated:
  "len \<le> flen \<Longrightarrow>
   allocate len (relocate_blocks offset bs
     @ [\<lparr> block_start_offset = s, block_length = flen, block_in_use = False \<rparr>]) \<noteq> None"
proof (induction bs arbitrary: offset)
  case Nil
  then show ?case by simp
next
  case (Cons b bs)
  show ?case
  proof (cases "block_in_use b")
    case True
    with Cons.IH [OF Cons.prems, of "offset + block_length b"] show ?thesis
      by (auto split: option.splits)
  next
    case False
    with Cons.IH [OF Cons.prems, of offset] show ?thesis by simp
  qed
qed

lemma allocate_compact:
  "0 < len \<Longrightarrow> len \<le> total_free bs \<Longrightarrow> allocate len (compact bs) \<noteq> None"
  using allocate_relocated [of len "total_free bs" 0 bs "total_used bs"]
  by (simp add: compact_def)

lemma try_create_None:
  "try_create c reg = (None, reg') \<Longrightarrow> 0 < descriptor_length c \<Longrightarrow> reg' = reg"
  using allocate_compact [of "descriptor_length c" "reg_pool reg"]
  by (auto simp: try_create_def register_handle_def registry_compact_def Let_def
      split: option.splits prod.splits if_splits)

lemma holds_content_add_reference [simp]:
  "holds_content (add_reference j reg) content = holds_content reg content"
  by (rule ext) (auto simp: holds_content_def add_reference_def split: option.splits)

lemma holds_content_registry_compact [simp]:
  "holds_content (registry_compact reg) content = holds_content reg content"
  by (rule ext)
     (auto simp: holds_content_def registry_compact_def relocate_handle_def
       split: option.splits prod.splits)

lemma registry_lookup_add_reference [simp]:
  "registry_lookup content (add_reference j reg) = registry_lookup content reg"
  by (simp add: registry_lookup_def) (simp add: add_reference_def split: option.splits)

lemma registry_lookup_register_handle:
  "registry_lookup (descriptor_content c) reg = None \<Longrightarrow>
   holds_content reg0 (descriptor_content c) = holds_content reg (descriptor_content c) \<Longrightarrow>
   reg_next_id reg0 = reg_next_id reg \<Longrightarrow>
   register_handle c offset pool reg0 = (i, reg') \<Longrightarrow>
   i = reg_next_id reg \<and> registry_lookup (descriptor_content c) reg' = Some i"
proof -
  assume none: "registry_lookup (descriptor_content c) reg = None"
    and same: "holds_content reg0 (descriptor_content c) = holds_content reg (descriptor_content c)"
    and nxt: "reg_next_id reg0 = reg_next_id reg"
    and r: "register_handle c offset pool reg0 = (i, reg')"
  from r have i: "i = reg_next_id reg" and n': "reg_next_id reg' = Suc (reg_next_id reg)"
    and h': "reg_handles reg' = (reg_handles reg0)
             (reg_next_id reg \<mapsto>
                \<lparr> handle_content = descriptor_content c,
                  handle_bank_id = reg_bank_id reg0,
                  handle_start_offset = offset,
                  handle_length = descriptor_length c,
                  handle_bpp = descriptor_bpp c,
                  handle_reference_count = 1 \<rparr>)"
    using nxt by (auto simp: register_handle_def)
  from none have no: "\<forall>j<reg_next_id reg. \<not> holds_content reg (descriptor_content c) j"
    by (auto simp: registry_lookup_def find_None_iff)
  have old: "\<forall>j<reg_next_id reg. \<not> holds_content reg' (descriptor_content c) j"
  proof (intro allI impI)
    fix j assume j: "j < reg_next_id reg"
    then have "holds_content reg' (descriptor_content c) j
               = holds_content reg0 (descriptor_content c) j"
      by (simp add: holds_content_def h')
    with no j same show "\<not> holds_content reg' (descriptor_content c) j" by simp
  qed
  have new: "holds_content reg' (descriptor_content c) (reg_next_id reg)"
    by (simp add: holds_content_def h')
  from find_upt_last [of "reg_next_id reg" "holds_content reg' (descriptor_content c)"] old new
  have "registry_lookup (descriptor_content c) reg' = Some (reg_next_id reg)"
    by (simp add: registry_lookup_def n')
  with i show ?thesis by simp
qed

lemma try_create_lookup:
  "try_create c reg = (Some h, reg1) \<Longrightarrow> registry_lookup (descriptor_content c) reg1 = Some h"
proof (cases "registry_lookup (descriptor_content c) reg")
  case (Some i)
  assume "try_create c reg = (Some h, reg1)"
  with Some show ?thesis by (auto simp: try_create_def)
next
  case None
  assume t: "try_create c reg = (Some h, reg1)"
  show ?thesis
  proof (cases "allocate (descriptor_length c) (reg_pool reg)")
    case (Some a)
    with t None obtain offset pool where
      "register_handle c offset pool reg = (h, reg1)"
      by (auto simp: try_create_def split: prod.splits)
    from registry_lookup_register_handle [OF None refl refl this] show ?thesis by simp
  next
    case none: None
    with t None obtain offset pool where
      "register_handle c offset pool (registry_compact reg) = (h, reg1)"
      by (auto simp: try_create_def Let_def split: prod.splits if_splits option.splits)
    from registry_lookup_register_handle [OF None _ _ this] show ?thesis
      by (simp add: registry_compact_def [of reg, THEN arg_cong [of _ _ reg_next_id]])
  qed
qed

lemma try_create_hit:
  "registry_lookup (descriptor_content c) reg = Some h \<Longrightarrow>
   \<exists>reg'. try_create c reg = (Some h, reg') \<and> reg_pool reg' = reg_pool reg
     \<and> handle_range reg' h = handle_range reg h
     \<and> reference_count reg' h = Suc (reference_count reg h)
     \<and> reg' = add_reference h reg"
proof -
  assume l: "registry_lookup (descriptor_content c) reg = Some h"
  then have "holds_content reg (descriptor_content c) h"
    unfolding registry_lookup_def by (auto dest: find_holds)
  then obtain hd where "reg_handles reg h = Some hd"
    by (auto simp: holds_content_def split: option.splits)
  with l show ?thesis
    by (simp add: try_create_def add_reference_def handle_range_def reference_count_def)
qed

lemma registry_create_twice:
  "registry_create c reg = Inr (h, reg1) \<Longrightarrow> descriptor_content c' = descriptor_content c \<Longrightarrow>
   \<exists>reg2. registry_create c' reg1 = Inr (h, reg2) \<and> reg_pool reg2 = reg_pool reg1
     \<and> handle_range reg2 h = handle_range reg1 h \<and> handle_range reg1 h \<noteq> None
     \<and> reference_count reg2 h = Suc (reference_count reg1 h)"
proof -
  assume c: "registry_create c reg = Inr (h, reg1)"
    and eq: "descriptor_content c' = descriptor_content c"
  from c have "try_create c reg = (Some h, reg1)"
    by (auto simp: registry_create_def split: prod.splits option.splits)
  then have l: "registry_lookup (descriptor_content c') reg1 = Some h"
    using eq by (simp add: try_create_lookup)
  then have "holds_content reg1 (descriptor_content c') h"
    unfolding registry_lookup_def by (auto dest: find_holds)
  then have r: "handle_range reg1 h \<noteq> None"
    by (auto simp: holds_content_def handle_range_def split: option.splits)
  from try_create_hit [OF l] r show ?thesis
    by (auto simp: registry_create_def)
qed

lemma registry_create_hit:
  "registry_lookup (descriptor_content c) reg = Some i \<Longrightarrow>
   \<exists>reg'. registry_create c reg = Inr (i, reg') \<and> reg_pool reg' = reg_pool reg"
  using try_create_hit [of c reg i] by (auto simp: registry_create_def)

text \<open>
  C1. Two create calls with the same content return the same handle: after a
  \<open>create_palette\<close> (or \<open>create_tiles\<close>) that returned a handle, a second call on an
  item with equal colours (equal tiles) returns that handle again, as a new reference,
  with the pool and the range of the handle as they were. A create call whose content a
  live handle holds returns that handle without allocating; memory is allocated only on
  a miss.
\<close>

theorem equal_content_shares_handle:
  "(create_palette item reg = Inr (h, reg1) \<and> item_colors item' = item_colors item \<longrightarrow>
      (\<exists>reg2. create_palette item' reg1 = Inr (h, reg2) \<and> reg_pool reg2 = reg_pool reg1
         \<and> handle_range reg2 h = handle_range reg1 h \<and> handle_range reg1 h \<noteq> None
         \<and> reference_count reg2 h = Suc (reference_count reg1 h)))
   \<and> (create_tiles titem treg = Inr (th, treg1) \<and> tiles_ref titem' = tiles_ref titem \<longrightarrow>
      (\<exists>treg2. create_tiles titem' treg1 = Inr (th, treg2) \<and> reg_pool treg2 = reg_pool treg1
         \<and> handle_range treg2 th = handle_range treg1 th \<and> handle_range treg1 th \<noteq> None
         \<and> reference_count treg2 th = Suc (reference_count treg1 th)))
   \<and> (registry_lookup (item_colors item) reg = Some i \<longrightarrow>
      (\<exists>reg'. create_palette item reg = Inr (i, reg') \<and> reg_pool reg' = reg_pool reg))
   \<and> (registry_lookup (tiles_ref titem) treg = Some ti \<longrightarrow>
      (\<exists>treg'. create_tiles titem treg = Inr (ti, treg') \<and> reg_pool treg' = reg_pool treg))"
proof (intro conjI impI)
  assume "create_palette item reg = Inr (h, reg1) \<and> item_colors item' = item_colors item"
  then show "\<exists>reg2. create_palette item' reg1 = Inr (h, reg2) \<and> reg_pool reg2 = reg_pool reg1
         \<and> handle_range reg2 h = handle_range reg1 h \<and> handle_range reg1 h \<noteq> None
         \<and> reference_count reg2 h = Suc (reference_count reg1 h)"
    using registry_create_twice [of "palette_descriptor item" reg h reg1 "palette_descriptor item'"]
    by (simp add: create_palette_def palette_descriptor_def)
next
  assume "create_tiles titem treg = Inr (th, treg1) \<and> tiles_ref titem' = tiles_ref titem"
  then show "\<exists>treg2. create_tiles titem' treg1 = Inr (th, treg2) \<and> reg_pool treg2 = reg_pool treg1
         \<and> handle_range treg2 th = handle_range treg1 th \<and> handle_range treg1 th \<noteq> None
         \<and> reference_count treg2 th = Suc (reference_count treg1 th)"
    using registry_create_twice [of "tiles_descriptor titem" treg th treg1 "tiles_descriptor titem'"]
    by (simp add: create_tiles_def tiles_descriptor_def)
next
  assume "registry_lookup (item_colors item) reg = Some i"
  then show "\<exists>reg'. create_palette item reg = Inr (i, reg') \<and> reg_pool reg' = reg_pool reg"
    using registry_create_hit [of "palette_descriptor item" reg i]
    by (simp add: create_palette_def palette_descriptor_def)
next
  assume "registry_lookup (tiles_ref titem) treg = Some ti"
  then show "\<exists>treg'. create_tiles titem treg = Inr (ti, treg') \<and> reg_pool treg' = reg_pool treg"
    using registry_create_hit [of "tiles_descriptor titem" treg ti]
    by (simp add: create_tiles_def tiles_descriptor_def)
qed

theorem equal_content_shares_handle_witness:
  "create_palette example_item_a example_registry = Inr (0, example_registry_a)
   \<and> item_colors (example_item_a\<lparr> item_bpp_mode := BPP_8 \<rparr>) = item_colors example_item_a
   \<and> (\<exists>reg2. create_palette (example_item_a\<lparr> item_bpp_mode := BPP_8 \<rparr>) example_registry_a
                 = Inr (0, reg2)
          \<and> reg_pool reg2 = reg_pool example_registry_a
          \<and> handle_range reg2 0 = Some (0, 0, 32)
          \<and> reference_count reg2 0 = 2)
   \<and> registry_lookup (item_colors example_item_a) example_registry_a = Some 0
   \<and> registry_lookup (item_colors example_item_a) example_registry = None"
  using equal_content_shares_handle
          [of example_item_a example_registry 0 example_registry_a
              "example_item_a\<lparr> item_bpp_mode := BPP_8 \<rparr>"
              "\<lparr> tiles_ref = [], compression = NONE \<rparr>" 
              "\<lparr> reg_bank_id = 1, reg_pool = [], reg_handles = (\<lambda>i. None), reg_next_id = 0 \<rparr>"
              0 "\<lparr> reg_bank_id = 1, reg_pool = [], reg_handles = (\<lambda>i. None), reg_next_id = 0 \<rparr>"
              "\<lparr> tiles_ref = [], compression = NONE \<rparr>" 0 0]
  by (simp add: create_palette_def registry_create_def try_create_def registry_lookup_def
      palette_descriptor_def example_item_a_def example_registry_def example_registry_a_def
      register_handle_def holds_content_def handle_range_def reference_count_def
      add_reference_def)

lemma try_create_content:
  "try_create c reg = (Some h, reg') \<Longrightarrow> registry_lookup (descriptor_content c) reg = None \<Longrightarrow>
   \<exists>hd. reg_handles reg' h = Some hd \<and> handle_content hd = descriptor_content c
      \<and> handle_length hd = descriptor_length c \<and> handle_reference_count hd = 1"
  by (auto simp: try_create_def register_handle_def Let_def
      split: option.splits prod.splits if_splits)

lemma try_create_content_hit:
  "try_create c reg = (Some h, reg') \<Longrightarrow> registry_lookup (descriptor_content c) reg = Some i \<Longrightarrow>
   \<exists>hd. reg_handles reg' h = Some hd \<and> handle_content hd = descriptor_content c
      \<and> 0 < handle_reference_count hd"
proof -
  assume t: "try_create c reg = (Some h, reg')"
    and l: "registry_lookup (descriptor_content c) reg = Some i"
  from l have "holds_content reg (descriptor_content c) i"
    unfolding registry_lookup_def by (auto dest: find_holds)
  with t l show ?thesis
    by (auto simp: try_create_def add_reference_def holds_content_def split: option.splits)
qed

lemma registry_create_optional_like_create:
  assumes len: "0 < descriptor_length c"
  shows "(registry_create c reg = Inr (h, reg') \<longleftrightarrow>
            registry_create_optional c reg = (Some h, reg'))
   \<and> (registry_create_optional c reg = (None, r) \<longrightarrow>
        r = reg \<and> registry_create c reg = Inl Allocation_failed)
   \<and> (registry_create c reg = Inl e \<longrightarrow>
        e = Allocation_failed \<and> registry_create_optional c reg = (None, reg))
   \<and> (registry_create_optional c reg = (Some h, reg') \<longrightarrow>
        (\<exists>hd. reg_handles reg' h = Some hd \<and> handle_content hd = descriptor_content c
           \<and> 0 < handle_reference_count hd))"
proof -
  have 1: "registry_create c reg = Inr (h, reg') \<longleftrightarrow>
           registry_create_optional c reg = (Some h, reg')"
    by (auto simp: registry_create_def registry_create_optional_def
        split: prod.splits option.splits)
  have 2: "r = reg \<and> registry_create c reg = Inl Allocation_failed"
    if "registry_create_optional c reg = (None, r)"
    using that try_create_None [of c reg r] len
    by (simp add: registry_create_def registry_create_optional_def)
  have 3: "e = Allocation_failed \<and> registry_create_optional c reg = (None, reg)"
    if n: "registry_create c reg = Inl e"
  proof -
    from n obtain r' where r: "try_create c reg = (None, r')"
      by (auto simp: registry_create_def split: prod.splits option.splits)
    with try_create_None [OF r len] n show ?thesis
      by (simp add: registry_create_def registry_create_optional_def)
  qed
  have 4: "\<exists>hd. reg_handles reg' h = Some hd \<and> handle_content hd = descriptor_content c
           \<and> 0 < handle_reference_count hd"
    if s: "registry_create_optional c reg = (Some h, reg')"
  proof (cases "registry_lookup (descriptor_content c) reg")
    case None
    with try_create_content [of c reg h reg'] s show ?thesis
      by (auto simp: registry_create_optional_def)
  next
    case (Some i)
    with try_create_content_hit [of c reg h reg' i] s show ?thesis
      by (auto simp: registry_create_optional_def)
  qed
  from 1 2 3 4 show ?thesis by blast
qed

text \<open>
  C8. \<open>create_palette_optional\<close> succeeds exactly when \<open>create_palette\<close> does, with the
  same handle and registry; where \<open>create_palette\<close> fails fatally it returns the empty
  optional and the registry and pool it was given; the palette it returns holds the
  item's colours. The same holds of \<open>create_tiles_optional\<close> on an item with tiles.
\<close>

theorem create_palette_optional_like_create_palette:
  "(new_sprite_palette_item colors bpp = Inr item \<longrightarrow>
      (create_palette item reg = Inr (h, reg') \<longleftrightarrow>
         create_palette_optional item reg = (Some h, reg'))
      \<and> (create_palette_optional item reg = (None, r) \<longrightarrow>
           r = reg \<and> create_palette item reg = Inl Allocation_failed)
      \<and> (create_palette item reg = Inl e \<longrightarrow>
           e = Allocation_failed \<and> create_palette_optional item reg = (None, reg))
      \<and> (create_palette_optional item reg = (Some h, reg') \<longrightarrow>
           (\<exists>hd. reg_handles reg' h = Some hd \<and> handle_content hd = item_colors item
              \<and> 0 < handle_reference_count hd)))
   \<and> (tiles_ref titem \<noteq> [] \<longrightarrow>
      (create_tiles titem treg = Inr (th, treg') \<longleftrightarrow>
         create_tiles_optional titem treg = (Some th, treg'))
      \<and> (create_tiles_optional titem treg = (None, tr) \<longrightarrow>
           tr = treg \<and> create_tiles titem treg = Inl Allocation_failed)
      \<and> (create_tiles titem treg = Inl te \<longrightarrow>
           te = Allocation_failed \<and> create_tiles_optional titem treg = (None, treg))
      \<and> (create_tiles_optional titem treg = (Some th, treg') \<longrightarrow>
           (\<exists>hd. reg_handles treg' th = Some hd \<and> handle_content hd = tiles_ref titem
              \<and> 0 < handle_reference_count hd)))"
proof -
  have p: "0 < descriptor_length (palette_descriptor item)"
    if "new_sprite_palette_item colors bpp = Inr item"
    using that
    by (auto simp: new_sprite_palette_item_def palette_descriptor_def split: if_splits)
  have t: "0 < descriptor_length (tiles_descriptor titem)" if "tiles_ref titem \<noteq> []"
    using that by (simp add: tiles_descriptor_def)
  have pc: "descriptor_content (palette_descriptor item) = item_colors item"
    by (simp add: palette_descriptor_def)
  have tc: "descriptor_content (tiles_descriptor titem) = tiles_ref titem"
    by (simp add: tiles_descriptor_def)
  show ?thesis
    using registry_create_optional_like_create
            [OF p, of reg h reg' r e, unfolded pc, folded create_palette_def
               create_palette_optional_def]
          registry_create_optional_like_create
            [OF t, of treg th treg' tr te, unfolded tc, folded create_tiles_def
               create_tiles_optional_def]
    by blast
qed

theorem create_palette_optional_like_create_palette_witness:
  "new_sprite_palette_item (replicate 256 0) BPP_8 = Inr example_item_b
   \<and> create_palette_optional example_item_b example_registry_a = (None, example_registry_a)
   \<and> create_palette example_item_b example_registry_a = Inl Allocation_failed
   \<and> create_palette_optional example_item_b
        (registry_release 0 example_registry_a)
      = (Some 1, \<lparr> reg_bank_id = 0,
           reg_pool = [\<lparr> block_start_offset = 0, block_length = 512, block_in_use = True \<rparr>],
           reg_handles = (\<lambda>i. None)
             (1 \<mapsto> \<lparr> handle_content = replicate 256 0, handle_bank_id = 0,
                     handle_start_offset = 0, handle_length = 512, handle_bpp = BPP_8,
                     handle_reference_count = 1 \<rparr>),
           reg_next_id = 2 \<rparr>)
   \<and> tiles_ref \<lparr> tiles_ref = [replicate 8 0], compression = NONE \<rparr> \<noteq> []
   \<and> create_tiles_optional \<lparr> tiles_ref = [replicate 8 0], compression = NONE \<rparr>
        \<lparr> reg_bank_id = 1, reg_pool = [], reg_handles = (\<lambda>i. None), reg_next_id = 0 \<rparr>
      = (None, \<lparr> reg_bank_id = 1, reg_pool = [], reg_handles = (\<lambda>i. None), reg_next_id = 0 \<rparr>)"
  using create_palette_optional_like_create_palette
          [of "replicate 256 0" BPP_8 example_item_b example_registry_a 1 example_registry_a
              example_registry_a Allocation_failed
              "\<lparr> tiles_ref = [replicate 8 0], compression = NONE \<rparr>"
              "\<lparr> reg_bank_id = 1, reg_pool = [], reg_handles = (\<lambda>i. None), reg_next_id = 0 \<rparr>"
              0
              "\<lparr> reg_bank_id = 1, reg_pool = [], reg_handles = (\<lambda>i. None), reg_next_id = 0 \<rparr>"
              "\<lparr> reg_bank_id = 1, reg_pool = [], reg_handles = (\<lambda>i. None), reg_next_id = 0 \<rparr>"
              Allocation_failed]
  by (simp add: new_sprite_palette_item_def create_palette_optional_def create_palette_def
      registry_create_def create_tiles_optional_def tiles_descriptor_def
      registry_create_optional_def try_create_def registry_lookup_def
      palette_descriptor_def example_item_b_def example_registry_a_def
      holds_content_def total_free_def registry_release_def pool_release_def register_handle_def)


end
